theory Spec2Isabelle
  imports Main
begin

section \<open>Errors, formatted messages and verdicts\<close>

text \<open>
  A Go \<open>error\<close> is a value. The reconciler distinguishes only the API machinery's
  not-found status error (\<open>errors.IsNotFound\<close>) from every other error. Errors built
  with \<open>fmt.Errorf\<close> keep the format string of the source and its arguments, so that no
  formatting has to be modelled. A nil dereference is a panic; it is a value of its own.
\<close>

datatype error =
    StatusNotFound string
  | ErrorString string
  | Errorf string "fmt_arg list"
  | Panic string
and fmt_arg =
    Str string
  | Num int
  | Err error
  | Errs "error list"

fun IsNotFound :: "error \<Rightarrow> bool" where
  "IsNotFound (StatusNotFound _) = True"
| "IsNotFound _ = False"

text \<open>
  \<open>util.SyncResult\<close> with its constructors \<open>SuccResult\<close>, \<open>ErrorResult\<close>,
  \<open>FailResult\<close>, \<open>AsyncResult\<close> and \<open>PeriodicResult\<close>. Durations are integers
  (seconds).
\<close>

datatype SyncResult =
    SuccResult
  | ErrorResult error
  | FailResult int
  | AsyncResult int
  | PeriodicResult int

section \<open>Data model\<close>

datatype EnsurePolicyType = PolicyIfNotReady | PolicyAlways

record EnsurePolicyConfig =
  Policy :: EnsurePolicyType
  MinPeriod :: "int option"

record PortSelector =
  PortNumber :: int
  Protocol :: string

record PodBackendRecord =
  pod_Name :: string
  pod_Port :: PortSelector

record ServiceBackendRecord =
  svc_Name :: string
  svc_Port :: PortSelector
  svc_NodeName :: string

record BackendRecordSpec =
  LBDriver :: string
  LBInfo :: string
  LBAttributes :: "(string \<times> string) list"
  Parameters :: "(string \<times> string) list"
  PodBackendInfo :: "PodBackendRecord option"
  ServiceBackendInfo :: "ServiceBackendRecord option"
  StaticAddr :: "string option"
  EnsurePolicy :: "EnsurePolicyConfig option"

datatype BackendRecordConditionType = BackendRegistered | OtherConditionType string

datatype ConditionStatus = ConditionTrue | ConditionFalse

record BackendRecordCondition =
  cond_Type :: BackendRecordConditionType
  cond_Status :: ConditionStatus
  LastTransitionTime :: nat
  Reason :: string
  Message :: string

text \<open>
  \<open>InjectedInfo\<close> is a Go \<open>map[string]string\<close>, kept as the list of its entries:
  \<open>len(m) > 0\<close> is \<open>m \<noteq> []\<close>, and a nil map is the empty list.
\<close>

record BackendRecordStatus =
  BackendAddr :: string
  InjectedInfo :: "(string \<times> string) list"
  Conditions :: "BackendRecordCondition list"

record BackendRecord =
  Namespace :: string
  Name :: string
  UID :: string
  DeletionTimestamp :: "nat option"
  Finalizers :: "string list"
  Spec :: BackendRecordSpec
  Status :: BackendRecordStatus

record WebhookConfig =
  wh_Name :: string
  wh_Timeout :: int

record LoadBalancerDriver =
  drv_Namespace :: string
  drv_Name :: string
  drv_Url :: string
  drv_Webhooks :: "WebhookConfig list"

datatype Pod = Pod string

datatype Service = Service string

record Node =
  node_Name :: string
  node_Addresses :: "string list"

subsection \<open>Webhook envelopes\<close>

record PodBackendInGenerateAddrRequest =
  pbr_Pod :: Pod
  pbr_Port :: PortSelector

record ServiceBackendInGenerateAddrRequest =
  sbr_Service :: Service
  sbr_Port :: PortSelector
  sbr_NodeName :: string
  sbr_NodeAddresses :: "string list"

record GenerateBackendAddrRequest =
  greq_RecordID :: string
  greq_RetryID :: string
  greq_LBInfo :: string
  greq_LBAttributes :: "(string \<times> string) list"
  greq_PodBackend :: "PodBackendInGenerateAddrRequest option"
  greq_ServiceBackend :: "ServiceBackendInGenerateAddrRequest option"

record GenerateBackendAddrResponse =
  grsp_Status :: string
  grsp_Msg :: string
  grsp_MinRetryDelayInSeconds :: int
  grsp_BackendAddr :: string

record BackendOperationRequest =
  oreq_RecordID :: string
  oreq_RetryID :: string
  oreq_LBInfo :: string
  oreq_BackendAddr :: string
  oreq_Parameters :: "(string \<times> string) list"
  oreq_InjectedInfo :: "(string \<times> string) list"

record BackendOperationResponse =
  orsp_Status :: string
  orsp_Msg :: string
  orsp_MinRetryDelayInSeconds :: int
  orsp_InjectedInfo :: "(string \<times> string) list"

text \<open>
  Modelled from the spec: the constants of package \<open>webhooks\<close> are not among the
  sources. The response status is one of the literal strings \<open>"Succ"\<close>, \<open>"Fail"\<close>,
  \<open>"Running"\<close>; the hook names are \<open>generateBackendAddr\<close>, \<open>ensureBackend\<close> and
  \<open>deregBackend\<close>.
\<close>

definition StatusSucc :: string where "StatusSucc = ''Succ''"
definition StatusFail :: string where "StatusFail = ''Fail''"
definition StatusRunning :: string where "StatusRunning = ''Running''"

definition GenerateBackendAddr :: string where "GenerateBackendAddr = ''generateBackendAddr''"
definition EnsureBackend :: string where "EnsureBackend = ''ensureBackend''"
definition DeregBackend :: string where "DeregBackend = ''deregBackend''"

text \<open>
  Modelled from the spec: the constant \<open>lbcfapi.FinalizerDeregisterBackend\<close> is not
  among the sources; the spec names the sentinel \<open>deregister-backend\<close>.
\<close>

definition FinalizerDeregisterBackend :: string where
  "FinalizerDeregisterBackend = ''deregister-backend''"

section \<open>Helpers of package util\<close>

text \<open>
  Modelled from the spec: \<open>util.HasFinalizer\<close> is not among the sources. The spec
  says that \<open>Finalizers\<close> contains the sentinel while deregistration is owed.
\<close>

fun HasFinalizer :: "string list \<Rightarrow> string \<Rightarrow> bool" where
  "HasFinalizer [] expect = False"
| "HasFinalizer (f # fs) expect = (if f = expect then True else HasFinalizer fs expect)"

text \<open>
  Modelled from the spec: \<open>util.RemoveFinalizer\<close> is not among the sources. The spec
  says that it strips the sentinel from \<open>Finalizers\<close>; the other entries keep their order.
\<close>

fun RemoveFinalizer :: "string list \<Rightarrow> string \<Rightarrow> string list" where
  "RemoveFinalizer [] toRemove = []"
| "RemoveFinalizer (f # fs) toRemove =
     (if f = toRemove then RemoveFinalizer fs toRemove else f # RemoveFinalizer fs toRemove)"

text \<open>
  Modelled from the spec: \<open>util.CalculateRetryInterval\<close> is not among the sources.
  The spec gives \<open>max(MinRetryDelaySeconds, FLOOR)\<close> for a constant \<open>FLOOR\<close>, which is
  a parameter here.
\<close>

definition CalculateRetryInterval :: "int \<Rightarrow> int \<Rightarrow> int" where
  "CalculateRetryInterval floor userValueInSeconds = max userValueInSeconds floor"

text \<open>
  Modelled from the spec: \<open>util.GetDuration\<close> is not among the sources. The spec gives
  the periodic cadence \<open>max(EnsurePolicy.MinPeriod, DEFAULT_ENSURE_PERIOD)\<close>; an absent
  \<open>MinPeriod\<close> leaves the default.
\<close>

fun GetDuration :: "int option \<Rightarrow> int \<Rightarrow> int" where
  "GetDuration None defaultValue = defaultValue"
| "GetDuration (Some d) defaultValue = max d defaultValue"

text \<open>
  Modelled from the spec: \<open>util.AddBackendCondition\<close> is not among the sources. The
  spec's upsert rule: an existing condition of the same type is replaced, keeping its
  transition time when the status is unchanged; otherwise the condition is appended.
\<close>

fun AddBackendCondition ::
  "BackendRecordCondition list \<Rightarrow> BackendRecordCondition \<Rightarrow> BackendRecordCondition list" where
  "AddBackendCondition [] expectCondition = [expectCondition]"
| "AddBackendCondition (c # cs) expectCondition =
     (if cond_Type c = cond_Type expectCondition
      then (if cond_Status c = cond_Status expectCondition
            then expectCondition\<lparr>LastTransitionTime := LastTransitionTime c\<rparr>
            else expectCondition) # cs
      else c # AddBackendCondition cs expectCondition)"

text \<open>
  Modelled from the spec: \<open>util.GetDriverNamespace\<close> is not among the sources. A
  driver whose name starts with the system marker lives in the system namespace, any
  other driver in the record's namespace. Marker and namespace are parameters.
\<close>

fun has_prefix :: "string \<Rightarrow> string \<Rightarrow> bool" where
  "has_prefix s [] = True"
| "has_prefix [] (p # ps) = False"
| "has_prefix (c # cs) (p # ps) = (c = p \<and> has_prefix cs ps)"

definition GetDriverNamespace :: "string \<Rightarrow> string \<Rightarrow> string \<Rightarrow> string \<Rightarrow> string" where
  "GetDriverNamespace marker systemNamespace driverName defaultNamespace =
     (if has_prefix driverName marker then systemNamespace else defaultNamespace)"

section \<open>Keys of the work queue\<close>

text \<open>
  \<open>cache.SplitMetaNamespaceKey\<close> of client-go: the key is split at every \<open>/\<close>; one
  part is a name without namespace, two parts are namespace and name, and anything else
  is an error.
\<close>

fun strings_Split :: "string \<Rightarrow> string list" where
  "strings_Split [] = [[]]"
| "strings_Split (c # cs) =
     (if c = CHR ''/'' then [] # strings_Split cs
      else (case strings_Split cs of
              [] \<Rightarrow> [[c]]
            | p # ps \<Rightarrow> (c # p) # ps))"

definition SplitMetaNamespaceKey :: "string \<Rightarrow> error + (string \<times> string)" where
  "SplitMetaNamespaceKey key =
     (case strings_Split key of
        [name] \<Rightarrow> Inr ([], name)
      | [namespace, name] \<Rightarrow> Inr (namespace, name)
      | _ \<Rightarrow> Inl (Errorf ''unexpected key format: %q'' [Str key]))"

section \<open>The controller and its collaborators\<close>

text \<open>
  The collaborators of \<open>backendController\<close> are the fields of an environment: the
  listers (a lookup is an error or the object), the \<open>WebhookInvoker\<close> (an error or the
  decoded response), the client (a write returns an error or nil), \<open>uuid.NewUUID\<close> and
  \<open>v1.Now\<close>. The constants of package \<open>util\<close> that are not among the sources are
  fields too.
\<close>

record env =
  brLister :: "string \<Rightarrow> string \<Rightarrow> error + BackendRecord"
  driverLister :: "string \<Rightarrow> string \<Rightarrow> error + LoadBalancerDriver"
  podLister :: "string \<Rightarrow> string \<Rightarrow> error + Pod"
  svcLister :: "string \<Rightarrow> string \<Rightarrow> error + Service"
  nodeLister :: "string \<Rightarrow> error + Node"
  CallGenerateBackendAddr ::
    "LoadBalancerDriver \<Rightarrow> GenerateBackendAddrRequest \<Rightarrow> error + GenerateBackendAddrResponse"
  CallEnsureBackend ::
    "LoadBalancerDriver \<Rightarrow> BackendOperationRequest \<Rightarrow> error + BackendOperationResponse"
  CallDeregisterBackend ::
    "LoadBalancerDriver \<Rightarrow> BackendOperationRequest \<Rightarrow> error + BackendOperationResponse"
  client_UpdateStatus :: "BackendRecord \<Rightarrow> error option"
  client_Update :: "BackendRecord \<Rightarrow> error option"
  NewUUID :: string
  Now :: nat
  SystemDriverPrefix :: string
  SystemNamespace :: string
  DefaultRetryInterval :: int
  DefaultEnsurePeriod :: int

datatype EventType = EventTypeNormal | EventTypeWarning

text \<open>
  What a reconcile does to the world, in order: the driver calls, the two kinds of writes
  through the client, the events (with the format string and its arguments), the writes to
  the registry of records being deleted, and the entry into each of the three address
  generators. Reads of the listers change nothing and are not logged.
\<close>

datatype action =
    DriverGenerateBackendAddr LoadBalancerDriver GenerateBackendAddrRequest
  | DriverEnsureBackend LoadBalancerDriver BackendOperationRequest
  | DriverDeregisterBackend LoadBalancerDriver BackendOperationRequest
  | UpdateStatus BackendRecord
  | Update BackendRecord
  | Eventf BackendRecord EventType string string "fmt_arg list"
  | RegistryStore string string
  | RegistryDelete string
  | EnterGeneratePodAddr
  | EnterGenerateServiceAddr
  | EnterGenerateStaticAddr

text \<open>
  The mutable state of the controller is the \<open>sync.Map\<close> \<open>inProgressDeleting\<close>;
  \<open>log\<close> collects the actions, the latest last.
\<close>

record cstate =
  inProgressDeleting :: "string \<rightharpoonup> string"
  log :: "action list"

definition do_action :: "action \<Rightarrow> cstate \<Rightarrow> cstate" where
  "do_action a st = st\<lparr>log := log st @ [a]\<rparr>"

definition deletingKey :: "BackendRecord \<Rightarrow> string" where
  "deletingKey backend = LBInfo (Spec backend) @ ''|'' @ BackendAddr (Status backend)"

definition storeDeletingBackend :: "cstate \<Rightarrow> BackendRecord \<Rightarrow> cstate" where
  "storeDeletingBackend st backend =
     (let key = deletingKey backend
      in do_action (RegistryStore key (Name backend))
           (st\<lparr>inProgressDeleting := (inProgressDeleting st)(key \<mapsto> Name backend)\<rparr>))"

definition removeDeletingRecord :: "cstate \<Rightarrow> BackendRecord \<Rightarrow> cstate" where
  "removeDeletingRecord st backend =
     (let key = deletingKey backend
      in do_action (RegistryDelete key)
           (st\<lparr>inProgressDeleting := (inProgressDeleting st)(key := None)\<rparr>))"

definition sameAddrDeleting :: "cstate \<Rightarrow> BackendRecord \<Rightarrow> string \<times> bool" where
  "sameAddrDeleting st backend =
     (let key = deletingKey backend
      in case inProgressDeleting st key of
           Some v \<Rightarrow> (v, True)
         | None \<Rightarrow> ([], False))"

definition getDriver :: "env \<Rightarrow> BackendRecord \<Rightarrow> error + LoadBalancerDriver" where
  "getDriver c backend =
     driverLister c
       (GetDriverNamespace (SystemDriverPrefix c) (SystemNamespace c)
          (LBDriver (Spec backend)) (Namespace backend))
       (LBDriver (Spec backend))"

definition retrieveDriverFailed :: "BackendRecord \<Rightarrow> error \<Rightarrow> error" where
  "retrieveDriverFailed backend err =
     Errorf ''retrieve driver %q for BackendRecord %s failed: %v''
       [Str (LBDriver (Spec backend)), Str (Name backend), Err err]"

subsection \<open>Address generators\<close>

definition generatePodAddr ::
  "env \<Rightarrow> cstate \<Rightarrow> BackendRecord \<Rightarrow> LoadBalancerDriver
     \<Rightarrow> (error + GenerateBackendAddrResponse) \<times> cstate" where
  "generatePodAddr c st0 backend driver =
     (let st = do_action EnterGeneratePodAddr st0
      in case PodBackendInfo (Spec backend) of
           None \<Rightarrow> (Inl (Panic ''nil pointer dereference''), st)
         | Some info \<Rightarrow>
             (case podLister c (Namespace backend) (pod_Name info) of
                Inl err \<Rightarrow> (Inl err, st)
              | Inr pod \<Rightarrow>
                  (let req = \<lparr>greq_RecordID = ''generateBackendAddr('' @ UID backend @ '')'',
                              greq_RetryID = NewUUID c,
                              greq_LBInfo = LBInfo (Spec backend),
                              greq_LBAttributes = LBAttributes (Spec backend),
                              greq_PodBackend = Some \<lparr>pbr_Pod = pod, pbr_Port = pod_Port info\<rparr>,
                              greq_ServiceBackend = None\<rparr>
                   in (CallGenerateBackendAddr c driver req,
                       do_action (DriverGenerateBackendAddr driver req) st))))"

definition generateServiceAddr ::
  "env \<Rightarrow> cstate \<Rightarrow> BackendRecord \<Rightarrow> LoadBalancerDriver
     \<Rightarrow> (error + GenerateBackendAddrResponse) \<times> cstate" where
  "generateServiceAddr c st0 backend driver =
     (let st = do_action EnterGenerateServiceAddr st0
      in case ServiceBackendInfo (Spec backend) of
           None \<Rightarrow> (Inl (Panic ''nil pointer dereference''), st)
         | Some info \<Rightarrow>
             (case nodeLister c (svc_NodeName info) of
                Inl err \<Rightarrow> (Inl err, st)
              | Inr node \<Rightarrow>
                  (case svcLister c (Namespace backend) (svc_Name info) of
                     Inl err \<Rightarrow> (Inl err, st)
                   | Inr svc \<Rightarrow>
                       (let req = \<lparr>greq_RecordID = ''generateBackendAddr('' @ UID backend @ '')'',
                                   greq_RetryID = NewUUID c,
                                   greq_LBInfo = LBInfo (Spec backend),
                                   greq_LBAttributes = LBAttributes (Spec backend),
                                   greq_PodBackend = None,
                                   greq_ServiceBackend =
                                     Some \<lparr>sbr_Service = svc, sbr_Port = svc_Port info,
                                           sbr_NodeName = node_Name node,
                                           sbr_NodeAddresses = node_Addresses node\<rparr>\<rparr>
                        in (CallGenerateBackendAddr c driver req,
                            do_action (DriverGenerateBackendAddr driver req) st)))))"

definition generateStaticAddr ::
  "cstate \<Rightarrow> BackendRecord \<Rightarrow> (error + GenerateBackendAddrResponse) \<times> cstate" where
  "generateStaticAddr st0 backend =
     (let st = do_action EnterGenerateStaticAddr st0
      in case StaticAddr (Spec backend) of
           None \<Rightarrow> (Inl (Panic ''nil pointer dereference''), st)
         | Some addr \<Rightarrow>
             (Inr \<lparr>grsp_Status = StatusSucc, grsp_Msg = [],
                   grsp_MinRetryDelayInSeconds = 0, grsp_BackendAddr = addr\<rparr>, st))"

subsection \<open>The generate path\<close>

text \<open>
  The chain of \<open>if\<close>s of \<open>generateBackendAddr\<close> that picks the generator: the result is
  the generator's response, or the error with which the function returns early. The error
  of the static generator is dropped by the source (\<open>rsp, _ =\<close>); it is the nil
  dereference that the guard of the branch excludes.
\<close>

definition generateDispatch ::
  "env \<Rightarrow> cstate \<Rightarrow> BackendRecord \<Rightarrow> LoadBalancerDriver
     \<Rightarrow> (error + GenerateBackendAddrResponse) \<times> cstate" where
  "generateDispatch c st backend driver =
     (if PodBackendInfo (Spec backend) \<noteq> None then generatePodAddr c st backend driver
      else if ServiceBackendInfo (Spec backend) \<noteq> None then generateServiceAddr c st backend driver
      else if StaticAddr (Spec backend) \<noteq> None then generateStaticAddr st backend
      else (Inl (Errorf ''unknown backend type'' []), st))"

text \<open>The \<open>switch rsp.Status\<close> of \<open>generateBackendAddr\<close>.\<close>

definition generateSwitch ::
  "env \<Rightarrow> cstate \<Rightarrow> BackendRecord \<Rightarrow> GenerateBackendAddrResponse \<Rightarrow> SyncResult \<times> cstate" where
  "generateSwitch c st backend rsp =
     (if grsp_Status rsp = StatusSucc then
        (let cpy = backend\<lparr>Status := (Status backend)\<lparr>BackendAddr := grsp_BackendAddr rsp\<rparr>\<rparr>;
             st1 = do_action (UpdateStatus cpy) st
         in case client_UpdateStatus c cpy of
              Some err \<Rightarrow>
                (ErrorResult err,
                 do_action (Eventf backend EventTypeWarning ''FailedGenerateAddr''
                              ''update status failed: %v'' [Err err]) st1)
            | None \<Rightarrow>
                (SuccResult,
                 do_action (Eventf backend EventTypeNormal ''SuccGenerateAddr''
                              ''addr: %s'' [Str (grsp_BackendAddr rsp)]) st1))
      else if grsp_Status rsp = StatusFail then
        (FailResult (CalculateRetryInterval (DefaultRetryInterval c)
                       (grsp_MinRetryDelayInSeconds rsp)),
         do_action (Eventf backend EventTypeWarning ''FailedGenerateAddr''
                      ''msg: %s'' [Str (grsp_Msg rsp)]) st)
      else if grsp_Status rsp = StatusRunning then
        (AsyncResult (CalculateRetryInterval (DefaultRetryInterval c)
                        (grsp_MinRetryDelayInSeconds rsp)),
         do_action (Eventf backend EventTypeNormal ''RunningGenerateAddr''
                      ''msg: %s'' [Str (grsp_Msg rsp)]) st)
      else
        (ErrorResult (Errorf ''unknown status %q'' [Str (grsp_Status rsp)]),
         do_action (Eventf backend EventTypeWarning ''InvalidGenerateAddr''
                      ''unsupported status: %s, msg: %s''
                      [Str (grsp_Status rsp), Str (grsp_Msg rsp)]) st))"

definition generateBackendAddr ::
  "env \<Rightarrow> cstate \<Rightarrow> BackendRecord \<Rightarrow> SyncResult \<times> cstate" where
  "generateBackendAddr c st backend =
     (case getDriver c backend of
        Inl err \<Rightarrow> (ErrorResult (retrieveDriverFailed backend err), st)
      | Inr driver \<Rightarrow>
          (case generateDispatch c st backend driver of
             (Inl err, st1) \<Rightarrow> (ErrorResult err, st1)
           | (Inr rsp, st1) \<Rightarrow> generateSwitch c st1 backend rsp))"

subsection \<open>The ensure path\<close>

definition operationRequest :: "env \<Rightarrow> string \<Rightarrow> BackendRecord \<Rightarrow> BackendOperationRequest" where
  "operationRequest c opName backend =
     \<lparr>oreq_RecordID = opName @ ''('' @ UID backend @ '')'',
      oreq_RetryID = NewUUID c,
      oreq_LBInfo = LBInfo (Spec backend),
      oreq_BackendAddr = BackendAddr (Status backend),
      oreq_Parameters = Parameters (Spec backend),
      oreq_InjectedInfo = InjectedInfo (Status backend)\<rparr>"

text \<open>
  Modelled from the spec: the constant \<open>lbcfapi.ReasonOperationFailed\<close> is not among
  the sources; the spec gives the reason \<open>OperationFailed\<close>.
\<close>

definition ReasonOperationFailed :: string where
  "ReasonOperationFailed = ''OperationFailed''"

definition addCondition :: "BackendRecord \<Rightarrow> BackendRecordCondition \<Rightarrow> BackendRecord" where
  "addCondition backend cond =
     backend\<lparr>Status := (Status backend)
       \<lparr>Conditions := AddBackendCondition (Conditions (Status backend)) cond\<rparr>\<rparr>"

text \<open>The \<open>switch rsp.Status\<close> of \<open>ensureBackend\<close>.\<close>

definition ensureSwitch ::
  "env \<Rightarrow> cstate \<Rightarrow> BackendRecord \<Rightarrow> BackendOperationResponse \<Rightarrow> SyncResult \<times> cstate" where
  "ensureSwitch c st backend0 rsp =
     (if orsp_Status rsp = StatusSucc then
        (let backend1 =
               (if orsp_InjectedInfo rsp \<noteq> []
                then backend0\<lparr>Status := (Status backend0)\<lparr>InjectedInfo := orsp_InjectedInfo rsp\<rparr>\<rparr>
                else backend0);
             backend = addCondition backend1
               \<lparr>cond_Type = BackendRegistered, cond_Status = ConditionTrue,
                LastTransitionTime = Now c, Reason = [], Message = orsp_Msg rsp\<rparr>;
             st1 = do_action (UpdateStatus backend) st
         in case client_UpdateStatus c backend of
              Some err \<Rightarrow>
                (ErrorResult err,
                 do_action (Eventf backend EventTypeWarning ''FailedEnsureBackend''
                              ''update status failed: %v'' [Err err]) st1)
            | None \<Rightarrow>
                (let st2 = do_action (Eventf backend EventTypeNormal ''SuccEnsureBackend''
                                        ''Successfully ensured backend'' []) st1
                 in case EnsurePolicy (Spec backend) of
                      None \<Rightarrow> (SuccResult, st2)
                    | Some policy \<Rightarrow>
                        (if Policy policy = PolicyAlways
                         then (PeriodicResult
                                 (GetDuration (MinPeriod policy) (DefaultEnsurePeriod c)), st2)
                         else (SuccResult, st2))))
      else if orsp_Status rsp = StatusFail then
        (let backend = addCondition backend0
               \<lparr>cond_Type = BackendRegistered, cond_Status = ConditionFalse,
                LastTransitionTime = Now c, Reason = ReasonOperationFailed,
                Message = orsp_Msg rsp\<rparr>;
             st1 = do_action (UpdateStatus backend) st
         in case client_UpdateStatus c backend of
              Some err \<Rightarrow>
                (ErrorResult err,
                 do_action (Eventf backend EventTypeWarning ''FailedEnsureBackend''
                              ''update status failed: %v'' [Err err]) st1)
            | None \<Rightarrow>
                (FailResult (CalculateRetryInterval (DefaultRetryInterval c)
                               (orsp_MinRetryDelayInSeconds rsp)),
                 do_action (Eventf backend EventTypeWarning ''FailedEnsureBackend''
                              ''msg: %s'' [Str (orsp_Msg rsp)]) st1))
      else if orsp_Status rsp = StatusRunning then
        (AsyncResult (CalculateRetryInterval (DefaultRetryInterval c)
                        (orsp_MinRetryDelayInSeconds rsp)),
         do_action (Eventf backend0 EventTypeNormal ''RunningEnsureBackend''
                      ''msg: %s'' [Str (orsp_Msg rsp)]) st)
      else
        (ErrorResult (Errorf ''unknown status %q'' [Str (orsp_Status rsp)]),
         do_action (Eventf backend0 EventTypeWarning ''InvalidEnsureBackend''
                      ''unsupported status: %s, msg: %s''
                      [Str (orsp_Status rsp), Str (orsp_Msg rsp)]) st))"

definition ensureBackend :: "env \<Rightarrow> cstate \<Rightarrow> BackendRecord \<Rightarrow> SyncResult \<times> cstate" where
  "ensureBackend c st backend =
     (case sameAddrDeleting st backend of
        (name, True) \<Rightarrow>
          (AsyncResult (CalculateRetryInterval (DefaultRetryInterval c) 0),
           do_action (Eventf backend EventTypeNormal ''DelayedEnsureBackend''
                        ''ensureBackend will start once %s is finished'' [Str name]) st)
      | (name, False) \<Rightarrow>
          (case getDriver c backend of
             Inl err \<Rightarrow> (ErrorResult (retrieveDriverFailed backend err), st)
           | Inr driver \<Rightarrow>
               (let req = operationRequest c ''ensureBackend'' backend;
                    st1 = do_action (DriverEnsureBackend driver req) st
                in case CallEnsureBackend c driver req of
                     Inl err \<Rightarrow> (ErrorResult err, st1)
                   | Inr rsp \<Rightarrow> ensureSwitch c st1 backend rsp)))"

subsection \<open>The deregister path\<close>

definition removeFinalizer :: "env \<Rightarrow> cstate \<Rightarrow> BackendRecord \<Rightarrow> SyncResult \<times> cstate" where
  "removeFinalizer c st backend0 =
     (let st1 = removeDeletingRecord st backend0;
          backend = backend0\<lparr>Finalizers :=
                      RemoveFinalizer (Finalizers backend0) FinalizerDeregisterBackend\<rparr>;
          st2 = do_action (Update backend) st1
      in case client_Update c backend of
           Some err \<Rightarrow> (ErrorResult err, st2)
         | None \<Rightarrow> (SuccResult, st2))"

definition deregisterBackend :: "env \<Rightarrow> cstate \<Rightarrow> BackendRecord \<Rightarrow> SyncResult \<times> cstate" where
  "deregisterBackend c st0 backend =
     (let st = storeDeletingBackend st0 backend
      in if BackendAddr (Status backend) = [] then removeFinalizer c st backend
         else
           (case getDriver c backend of
              Inl err \<Rightarrow> (ErrorResult (retrieveDriverFailed backend err), st)
            | Inr driver \<Rightarrow>
                (let req = operationRequest c ''deregisterBackend'' backend;
                     st1 = do_action (DriverDeregisterBackend driver req) st
                 in case CallDeregisterBackend c driver req of
                      Inl err \<Rightarrow> (ErrorResult err, st1)
                    | Inr rsp \<Rightarrow>
                        (if orsp_Status rsp = StatusSucc then removeFinalizer c st1 backend
                         else if orsp_Status rsp = StatusFail then
                           (FailResult (CalculateRetryInterval (DefaultRetryInterval c)
                                          (orsp_MinRetryDelayInSeconds rsp)),
                            do_action (Eventf backend EventTypeWarning ''FailedDeregister''
                                         ''msg: %s'' [Str (orsp_Msg rsp)]) st1)
                         else if orsp_Status rsp = StatusRunning then
                           (AsyncResult (CalculateRetryInterval (DefaultRetryInterval c)
                                           (orsp_MinRetryDelayInSeconds rsp)),
                            do_action (Eventf backend EventTypeNormal ''RunningDeregister''
                                         ''msg: %s'' [Str (orsp_Msg rsp)]) st1)
                         else
                           (ErrorResult (Errorf ''unknown status %q'' [Str (orsp_Status rsp)]),
                            do_action (Eventf backend EventTypeWarning ''InvalidDeregister''
                                         ''unsupported status: %s, msg: %s''
                                         [Str (orsp_Status rsp), Str (orsp_Msg rsp)]) st1)))))"

subsection \<open>The reconciler\<close>

definition syncBackendRecord :: "env \<Rightarrow> cstate \<Rightarrow> string \<Rightarrow> SyncResult \<times> cstate" where
  "syncBackendRecord c st key =
     (case SplitMetaNamespaceKey key of
        Inl err \<Rightarrow> (ErrorResult err, st)
      | Inr (namespace, name) \<Rightarrow>
          (case brLister c namespace name of
             Inl err \<Rightarrow> (if IsNotFound err then (SuccResult, st) else (ErrorResult err, st))
           | Inr backend \<Rightarrow>
               (if DeletionTimestamp backend \<noteq> None then
                  (if \<not> HasFinalizer (Finalizers backend) FinalizerDeregisterBackend
                   then (SuccResult, st)
                   else deregisterBackend c st backend)
                else if BackendAddr (Status backend) = [] then generateBackendAddr c st backend
                else ensureBackend c st backend)))"

section \<open>The webhook client\<close>

subsection \<open>Go's \<open>path\<close> and \<open>net/url\<close>\<close>

text \<open>
  \<open>path.Clean\<close>: empty and \<open>.\<close> elements go, a \<open>..\<close> element takes the element
  before it with it, a \<open>..\<close> at the root goes, and the empty result is \<open>.\<close>. The
  elements are kept on a stack, the last one first.
\<close>

fun clean_step :: "bool \<Rightarrow> string list \<Rightarrow> string \<Rightarrow> string list" where
  "clean_step rooted acc el =
     (if el = [] \<or> el = ''.'' then acc
      else if el = ''..'' then
        (case acc of
           [] \<Rightarrow> (if rooted then [] else [''..''])
         | a # as \<Rightarrow> (if a = ''..'' then el # acc else as))
      else el # acc)"

fun join_slash :: "string list \<Rightarrow> string" where
  "join_slash [] = []"
| "join_slash [x] = x"
| "join_slash (x # y # ys) = x @ ''/'' @ join_slash (y # ys)"

definition path_Clean :: "string \<Rightarrow> string" where
  "path_Clean p =
     (case p of
        [] \<Rightarrow> ''.''
      | c # _ \<Rightarrow>
          (let rooted = (c = CHR ''/'');
               body = join_slash (rev (foldl (clean_step rooted) [] (strings_Split p)))
           in if rooted then CHR ''/'' # body
              else if body = [] then ''.'' else body))"

text \<open>\<open>path.Join\<close>: leading empty elements are ignored; all empty gives the empty string.\<close>

definition path_Join :: "string list \<Rightarrow> string" where
  "path_Join elem =
     (case dropWhile (\<lambda>e. e = []) elem of
        [] \<Rightarrow> []
      | e # es \<Rightarrow> path_Clean (join_slash (e # es)))"

text \<open>
  The fields of \<open>url.URL\<close> that \<open>callWebhook\<close> touches or \<open>String\<close> prints, for a URL
  without user information and without opaque part. \<open>URL_String\<close> is \<open>(*URL).String\<close>
  on such a URL whose components need no escaping.
\<close>

record URL =
  url_Scheme :: string
  url_Host :: string
  url_Path :: string
  url_RawQuery :: string
  url_Fragment :: string

definition URL_String :: "URL \<Rightarrow> string" where
  "URL_String u =
     (if url_Scheme u \<noteq> [] then url_Scheme u @ '':'' else [])
     @ (if (url_Scheme u \<noteq> [] \<or> url_Host u \<noteq> []) \<and> (url_Host u \<noteq> [] \<or> url_Path u \<noteq> [])
        then ''//'' else [])
     @ (if url_Scheme u \<noteq> [] \<or> url_Host u \<noteq> [] then url_Host u else [])
     @ (case url_Path u of
          [] \<Rightarrow> []
        | c # _ \<Rightarrow> (if c \<noteq> CHR ''/'' \<and> url_Host u \<noteq> [] then ''/'' else []))
     @ url_Path u
     @ (if url_RawQuery u \<noteq> [] then ''?'' @ url_RawQuery u else [])
     @ (if url_Fragment u \<noteq> [] then ''#'' @ url_Fragment u else [])"

subsection \<open>\<open>callWebhook\<close>\<close>

text \<open>
  What \<open>callWebhook\<close> leaves to libraries: \<open>url.Parse\<close>, the HTTP round trip of
  gorequest (\<open>Timeout\<close>, \<open>Post\<close>, \<open>Send\<close>, \<open>EndBytes\<close>: status code, body and the
  list of errors) and \<open>json.Unmarshal\<close> into the response. The payload type \<open>'p\<close> and the
  response type \<open>'r\<close> are those of the hook. Logging through klog is not modelled.
\<close>

record ('p, 'r) transport =
  url_Parse :: "string \<Rightarrow> error + URL"
  http_Post :: "int \<Rightarrow> string \<Rightarrow> 'p \<Rightarrow> int \<times> string \<times> error list"
  json_Unmarshal :: "string \<Rightarrow> error + 'r"

fun hookTimeout :: "WebhookConfig list \<Rightarrow> string \<Rightarrow> int" where
  "hookTimeout [] webHookName = 0"
| "hookTimeout (h # hs) webHookName =
     (if wh_Name h = webHookName then wh_Timeout h else hookTimeout hs webHookName)"

text \<open>The URL of the request: \<open>url.Parse\<close>, the assignment to \<open>u.Path\<close>, \<open>u.String()\<close>.\<close>

definition requestURL :: "('p, 'r) transport \<Rightarrow> LoadBalancerDriver \<Rightarrow> string \<Rightarrow> error + string" where
  "requestURL t driver webHookName =
     (case url_Parse t (drv_Url driver) of
        Inl err \<Rightarrow> Inl (Errorf ''invalid url: %v'' [Err err])
      | Inr u \<Rightarrow> Inr (URL_String (u\<lparr>url_Path := path_Join [webHookName]\<rparr>)))"

definition StatusOK :: int where "StatusOK = 200"

definition callWebhook ::
  "('p, 'r) transport \<Rightarrow> LoadBalancerDriver \<Rightarrow> string \<Rightarrow> 'p \<Rightarrow> error + 'r" where
  "callWebhook t driver webHookName payload =
     (case requestURL t driver webHookName of
        Inl e \<Rightarrow> Inl e
      | Inr target \<Rightarrow>
          (let timeout = hookTimeout (drv_Webhooks driver) webHookName
           in case http_Post t timeout target payload of
                (statusCode, body, errs) \<Rightarrow>
                  (if errs \<noteq> [] then Inl (Errorf ''webhook err: %v'' [Errs errs])
                   else if statusCode \<noteq> StatusOK then
                     Inl (Errorf ''http status code: %d, body: %s'' [Num statusCode, Str body])
                   else
                     (case json_Unmarshal t body of
                        Inl err \<Rightarrow>
                          Inl (Errorf ''decode webhook response err: %v, raw: %s''
                                 [Err err, Str body])
                      | Inr rsp \<Rightarrow> Inr rsp))))"

text \<open>The methods of \<open>WebhookInvokerImpl\<close> that the backend controller uses.\<close>

definition Impl_CallGenerateBackendAddr ::
  "(GenerateBackendAddrRequest, GenerateBackendAddrResponse) transport
     \<Rightarrow> LoadBalancerDriver \<Rightarrow> GenerateBackendAddrRequest \<Rightarrow> error + GenerateBackendAddrResponse" where
  "Impl_CallGenerateBackendAddr t driver req = callWebhook t driver GenerateBackendAddr req"



section \<open>Observing a reconcile\<close>

text \<open>The actions that a call added to the log, given the state before and after it.\<close>

definition new_actions :: "cstate \<Rightarrow> cstate \<Rightarrow> action list" where
  "new_actions st st' = drop (length (log st)) (log st')"

text \<open>The records handed to the client, by \<open>UpdateStatus\<close> or by \<open>Update\<close>, in order.\<close>

fun writes :: "action list \<Rightarrow> BackendRecord list" where
  "writes [] = []"
| "writes (UpdateStatus r # as) = r # writes as"
| "writes (Update r # as) = r # writes as"
| "writes (_ # as) = writes as"

text \<open>The records handed to the client by a full \<open>Update\<close>.\<close>

fun updates :: "action list \<Rightarrow> BackendRecord list" where
  "updates [] = []"
| "updates (Update r # as) = r # updates as"
| "updates (_ # as) = updates as"

text \<open>The calls to the driver, as the hook names.\<close>

fun driverCalls :: "action list \<Rightarrow> string list" where
  "driverCalls [] = []"
| "driverCalls (DriverGenerateBackendAddr _ _ # as) = GenerateBackendAddr # driverCalls as"
| "driverCalls (DriverEnsureBackend _ _ # as) = EnsureBackend # driverCalls as"
| "driverCalls (DriverDeregisterBackend _ _ # as) = DeregBackend # driverCalls as"
| "driverCalls (_ # as) = driverCalls as"

text \<open>The entries into the address generators.\<close>

fun generatorEntries :: "action list \<Rightarrow> action list" where
  "generatorEntries [] = []"
| "generatorEntries (EnterGeneratePodAddr # as) = EnterGeneratePodAddr # generatorEntries as"
| "generatorEntries (EnterGenerateServiceAddr # as) =
     EnterGenerateServiceAddr # generatorEntries as"
| "generatorEntries (EnterGenerateStaticAddr # as) =
     EnterGenerateStaticAddr # generatorEntries as"
| "generatorEntries (_ # as) = generatorEntries as"

section \<open>Fakes for evaluation\<close>

text \<open>
  An in-memory environment: the record lister reads a list, one driver exists, the webhook
  invoker answers each hook with a fixed result, and both writes of the client return the
  same fixed result.
\<close>

definition fakeDriver :: LoadBalancerDriver where
  "fakeDriver = \<lparr>drv_Namespace = ''default'', drv_Name = ''drv'',
                  drv_Url = ''http://lb-driver.default'', drv_Webhooks = []\<rparr>"

definition fakeEnv ::
  "BackendRecord list \<Rightarrow> (error + GenerateBackendAddrResponse)
     \<Rightarrow> (error + BackendOperationResponse) \<Rightarrow> (error + BackendOperationResponse)
     \<Rightarrow> error option \<Rightarrow> env" where
  "fakeEnv records genRsp ensureRsp deregRsp writeErr =
     \<lparr>brLister = (\<lambda>namespace name.
        case find (\<lambda>b. Namespace b = namespace \<and> Name b = name) records of
          None \<Rightarrow> Inl (StatusNotFound name)
        | Some b \<Rightarrow> Inr b),
      driverLister = (\<lambda>namespace name.
        if name = drv_Name fakeDriver then Inr fakeDriver else Inl (StatusNotFound name)),
      podLister = (\<lambda>namespace name. Inr (Pod name)),
      svcLister = (\<lambda>namespace name. Inr (Service name)),
      nodeLister = (\<lambda>name. Inr \<lparr>node_Name = name, node_Addresses = []\<rparr>),
      CallGenerateBackendAddr = (\<lambda>driver req. genRsp),
      CallEnsureBackend = (\<lambda>driver req. ensureRsp),
      CallDeregisterBackend = (\<lambda>driver req. deregRsp),
      client_UpdateStatus = (\<lambda>b. writeErr),
      client_Update = (\<lambda>b. writeErr),
      NewUUID = ''uuid-1'',
      Now = 100,
      SystemDriverPrefix = ''lbcf-'',
      SystemNamespace = ''kube-system'',
      DefaultRetryInterval = 10,
      DefaultEnsurePeriod = 60\<rparr>"

definition fakeRecord :: BackendRecord where
  "fakeRecord =
     \<lparr>Namespace = ''default'', Name = ''rec-a'', UID = ''uid-a'',
      DeletionTimestamp = None, Finalizers = [''deregister-backend''],
      Spec = \<lparr>LBDriver = ''drv'', LBInfo = ''lb1'', LBAttributes = [], Parameters = [],
              PodBackendInfo = None, ServiceBackendInfo = None,
              StaticAddr = Some ''10.0.0.1:80'', EnsurePolicy = None\<rparr>,
      Status = \<lparr>BackendAddr = ''1.1.1.1'', InjectedInfo = [], Conditions = []\<rparr>\<rparr>"

definition emptyState :: cstate where
  "emptyState = \<lparr>inProgressDeleting = Map.empty, log = []\<rparr>"

definition genResponse :: "string \<Rightarrow> string \<Rightarrow> GenerateBackendAddrResponse" where
  "genResponse status addr =
     \<lparr>grsp_Status = status, grsp_Msg = [], grsp_MinRetryDelayInSeconds = 0,
      grsp_BackendAddr = addr\<rparr>"

definition opResponse :: "string \<Rightarrow> (string \<times> string) list \<Rightarrow> BackendOperationResponse" where
  "opResponse status info =
     \<lparr>orsp_Status = status, orsp_Msg = [], orsp_MinRetryDelayInSeconds = 0,
      orsp_InjectedInfo = info\<rparr>"

definition noAnswer :: "error + 'a" where
  "noAnswer = Inl (ErrorString ''connection refused'')"

text \<open>
  A transport whose \<open>url.Parse\<close> knows two driver URLs, one without and one with a base
  path, with the values that \<open>url.Parse\<close> gives for them; the HTTP round trip and the
  decoder return fixed results.
\<close>

definition fakeParse :: "string \<Rightarrow> error + URL" where
  "fakeParse rawurl =
     (if rawurl = ''http://lb-driver.default'' then
        Inr \<lparr>url_Scheme = ''http'', url_Host = ''lb-driver.default'', url_Path = [],
             url_RawQuery = [], url_Fragment = []\<rparr>
      else if rawurl = ''http://lb-driver.default/api/v1'' then
        Inr \<lparr>url_Scheme = ''http'', url_Host = ''lb-driver.default'', url_Path = ''/api/v1'',
             url_RawQuery = [], url_Fragment = []\<rparr>
      else Inl (ErrorString ''parse error''))"


text \<open>A transport that answers 200 with the request's URL as the body, decoded as it is.\<close>

definition echoTransport :: "('p, string) transport" where
  "echoTransport =
     \<lparr>url_Parse = fakeParse,
      http_Post = (\<lambda>timeout target payload. (200, target, [])),
      json_Unmarshal = (\<lambda>raw. Inr raw)\<rparr>"

section \<open>Auxiliary facts\<close>

lemma HasFinalizer_iff: "HasFinalizer fs x \<longleftrightarrow> x \<in> set fs"
  by (induction fs) auto


lemma new_actions_append [simp]: "new_actions st (st''\<lparr>log := log st @ xs\<rparr>) = xs"
  by (simp add: new_actions_def)

lemma new_actions_self [simp]: "new_actions st st = []"
  by (simp add: new_actions_def)

lemma removeFinalizer_eq:
  "removeFinalizer c st backend =
     ((case client_Update c (backend\<lparr>Finalizers :=
                RemoveFinalizer (Finalizers backend) FinalizerDeregisterBackend\<rparr>) of
         Some err \<Rightarrow> ErrorResult err | None \<Rightarrow> SuccResult),
      st\<lparr>inProgressDeleting := (inProgressDeleting st)(deletingKey backend := None),
         log := log st @ [RegistryDelete (deletingKey backend),
                          Update (backend\<lparr>Finalizers :=
                            RemoveFinalizer (Finalizers backend) FinalizerDeregisterBackend\<rparr>)]\<rparr>)"
  by (simp add: removeFinalizer_def removeDeletingRecord_def do_action_def Let_def
           split: option.splits)

subsection \<open>What each path adds to the log\<close>

lemma log_do_action [simp]: "log (do_action a st) = log st @ [a]"
  by (simp add: do_action_def)

lemma registry_do_action [simp]: "inProgressDeleting (do_action a st) = inProgressDeleting st"
  by (simp add: do_action_def)

lemma new_actions_log: "log st' = log st @ xs \<Longrightarrow> new_actions st st' = xs"
  by (simp add: new_actions_def)

lemma log_storeDeletingBackend [simp]:
  "log (storeDeletingBackend st b) = log st @ [RegistryStore (deletingKey b) (Name b)]"
  by (simp add: storeDeletingBackend_def Let_def)

lemma log_removeFinalizer [simp]:
  "log (snd (removeFinalizer c st b)) =
     log st @ [RegistryDelete (deletingKey b),
               Update (b\<lparr>Finalizers := RemoveFinalizer (Finalizers b) FinalizerDeregisterBackend\<rparr>)]"
  by (simp add: removeFinalizer_eq)

lemma updates_append [simp]: "updates (xs @ ys) = updates xs @ updates ys"
  by (induction xs rule: updates.induct) auto

lemma writes_append [simp]: "writes (xs @ ys) = writes xs @ writes ys"
  by (induction xs rule: writes.induct) auto

lemma generatorEntries_append [simp]:
  "generatorEntries (xs @ ys) = generatorEntries xs @ generatorEntries ys"
  by (induction xs rule: generatorEntries.induct) auto

lemma driverCalls_append [simp]: "driverCalls (xs @ ys) = driverCalls xs @ driverCalls ys"
  by (induction xs rule: driverCalls.induct) auto


lemma log_ensureBackend:
  "\<exists>xs. log (snd (ensureBackend c st b)) = log st @ xs \<and> updates xs = []
        \<and> generatorEntries xs = []
        \<and> (\<forall>r\<in>set (writes xs). BackendAddr (Status r) = BackendAddr (Status b))"
  by (auto simp: ensureBackend_def ensureSwitch_def addCondition_def Let_def
           split: prod.splits bool.splits sum.splits option.splits)

lemma log_generateDispatch:
  "\<exists>xs. log (snd (generateDispatch c st b driver)) = log st @ xs \<and> writes xs = []
        \<and> updates xs = []
        \<and> generatorEntries xs =
            (if PodBackendInfo (Spec b) \<noteq> None then [EnterGeneratePodAddr]
             else if ServiceBackendInfo (Spec b) \<noteq> None then [EnterGenerateServiceAddr]
             else if StaticAddr (Spec b) \<noteq> None then [EnterGenerateStaticAddr]
             else [])"
  by (auto simp: generateDispatch_def generatePodAddr_def generateServiceAddr_def
                 generateStaticAddr_def Let_def
           split: sum.splits option.splits)

lemma log_generateSwitch:
  "\<exists>xs. log (snd (generateSwitch c st b rsp)) = log st @ xs \<and> updates xs = []
        \<and> generatorEntries xs = []
        \<and> writes xs = (if grsp_Status rsp = StatusSucc
                       then [b\<lparr>Status := (Status b)\<lparr>BackendAddr := grsp_BackendAddr rsp\<rparr>\<rparr>]
                       else [])"
  by (auto simp: generateSwitch_def Let_def split: option.splits)

lemma log_deregisterBackend:
  "\<exists>xs. log (snd (deregisterBackend c st b)) = log st @ xs
        \<and> generatorEntries xs = []
        \<and> writes xs = updates xs
        \<and> updates xs =
            (if BackendAddr (Status b) = []
                \<or> (\<exists>driver rsp. getDriver c b = Inr driver
                      \<and> CallDeregisterBackend c driver (operationRequest c ''deregisterBackend'' b)
                          = Inr rsp
                      \<and> orsp_Status rsp = StatusSucc)
             then [b\<lparr>Finalizers := RemoveFinalizer (Finalizers b) FinalizerDeregisterBackend\<rparr>]
             else [])"
  by (auto simp: deregisterBackend_def Let_def split: sum.splits)


lemma log_generateBackendAddr:
  "\<exists>xs. log (snd (generateBackendAddr c st b)) = log st @ xs \<and> updates xs = []
        \<and> length (generatorEntries xs) \<le> 1
        \<and> (\<forall>r\<in>set (writes xs).
              \<exists>driver rsp s1. getDriver c b = Inr driver
                \<and> generateDispatch c st b driver = (Inr rsp, s1)
                \<and> grsp_Status rsp = StatusSucc
                \<and> r = b\<lparr>Status := (Status b)\<lparr>BackendAddr := grsp_BackendAddr rsp\<rparr>\<rparr>)"
proof (cases "getDriver c b")
  case (Inl err)
  then show ?thesis by (simp add: generateBackendAddr_def)
next
  case (Inr driver)
  obtain res s1 where disp: "generateDispatch c st b driver = (res, s1)"
    by (cases "generateDispatch c st b driver")
  from log_generateDispatch[of c st b driver] disp
  obtain xs where xs: "log s1 = log st @ xs" "writes xs = []" "updates xs = []"
    "length (generatorEntries xs) \<le> 1"
    by (auto split: if_splits)
  show ?thesis
  proof (cases res)
    case (Inl err)
    with Inr disp xs show ?thesis by (simp add: generateBackendAddr_def)
  next
    case (Inr rsp)
    from log_generateSwitch[of c s1 b rsp]
    obtain ys where ys: "log (snd (generateSwitch c s1 b rsp)) = log s1 @ ys" "updates ys = []"
      "generatorEntries ys = []"
      "writes ys = (if grsp_Status rsp = StatusSucc
                    then [b\<lparr>Status := (Status b)\<lparr>BackendAddr := grsp_BackendAddr rsp\<rparr>\<rparr>]
                    else [])"
      by blast
    have "log (snd (generateBackendAddr c st b)) = log st @ (xs @ ys)"
      using \<open>getDriver c b = Inr driver\<close> disp Inr xs(1) ys(1)
      by (simp add: generateBackendAddr_def)
    moreover have "updates (xs @ ys) = []" using xs ys by simp
    moreover have "length (generatorEntries (xs @ ys)) \<le> 1" using xs ys by simp
    moreover have "\<forall>r\<in>set (writes (xs @ ys)).
              \<exists>driver rsp s1. getDriver c b = Inr driver
                \<and> generateDispatch c st b driver = (Inr rsp, s1)
                \<and> grsp_Status rsp = StatusSucc
                \<and> r = b\<lparr>Status := (Status b)\<lparr>BackendAddr := grsp_BackendAddr rsp\<rparr>\<rparr>"
      using xs(2) ys(4) \<open>getDriver c b = Inr driver\<close> disp Inr
      by (auto split: if_splits)
    ultimately show ?thesis by blast
  qed
qed

lemma updates_ensureBackend: "updates (new_actions st (snd (ensureBackend c st b))) = []"
  using log_ensureBackend[of c st b] by (auto simp: new_actions_log)

lemma updates_generateBackendAddr:
  "updates (new_actions st (snd (generateBackendAddr c st b))) = []"
  using log_generateBackendAddr[of c st b] by (auto simp: new_actions_log)

lemma updates_deregisterBackend:
  "updates (new_actions st (snd (deregisterBackend c st b))) =
     (if BackendAddr (Status b) = []
         \<or> (\<exists>driver rsp. getDriver c b = Inr driver
               \<and> CallDeregisterBackend c driver (operationRequest c ''deregisterBackend'' b)
                   = Inr rsp
               \<and> orsp_Status rsp = StatusSucc)
      then [b\<lparr>Finalizers := RemoveFinalizer (Finalizers b) FinalizerDeregisterBackend\<rparr>]
      else [])"
proof -
  from log_deregisterBackend[of c st b]
  obtain xs where xs: "log (snd (deregisterBackend c st b)) = log st @ xs"
    "updates xs =
     (if BackendAddr (Status b) = []
         \<or> (\<exists>driver rsp. getDriver c b = Inr driver
               \<and> CallDeregisterBackend c driver (operationRequest c ''deregisterBackend'' b)
                   = Inr rsp
               \<and> orsp_Status rsp = StatusSucc)
      then [b\<lparr>Finalizers := RemoveFinalizer (Finalizers b) FinalizerDeregisterBackend\<rparr>]
      else [])"
    by blast
  from xs(1) have "new_actions st (snd (deregisterBackend c st b)) = xs"
    by (rule new_actions_log)
  with xs(2) show ?thesis by simp
qed

lemma writes_deregisterBackend:
  "writes (new_actions st (snd (deregisterBackend c st b)))
     = updates (new_actions st (snd (deregisterBackend c st b)))"
  using log_deregisterBackend[of c st b] by (auto simp: new_actions_log)

lemma updates_syncBackendRecord:
  assumes "r \<in> set (updates (new_actions st (snd (syncBackendRecord c st key))))"
  shows "\<exists>namespace name b. SplitMetaNamespaceKey key = Inr (namespace, name)
           \<and> brLister c namespace name = Inr b
           \<and> DeletionTimestamp b \<noteq> None
           \<and> HasFinalizer (Finalizers b) FinalizerDeregisterBackend
           \<and> syncBackendRecord c st key = deregisterBackend c st b"
proof (cases "SplitMetaNamespaceKey key")
  case (Inl err)
  with assms show ?thesis by (simp add: syncBackendRecord_def)
next
  case (Inr nn)
  obtain namespace name where nn: "nn = (namespace, name)" by (cases nn)
  show ?thesis
  proof (cases "brLister c namespace name")
    case (Inl err)
    with assms Inr nn show ?thesis by (simp add: syncBackendRecord_def split: if_splits)
  next
    case (Inr b)
    have eq: "syncBackendRecord c st key =
      (if DeletionTimestamp b \<noteq> None then
         (if \<not> HasFinalizer (Finalizers b) FinalizerDeregisterBackend
          then (SuccResult, st) else deregisterBackend c st b)
       else if BackendAddr (Status b) = [] then generateBackendAddr c st b
       else ensureBackend c st b)"
      using \<open>SplitMetaNamespaceKey key = Inr nn\<close> nn Inr by (simp add: syncBackendRecord_def)
    with assms have "DeletionTimestamp b \<noteq> None
        \<and> HasFinalizer (Finalizers b) FinalizerDeregisterBackend"
      by (auto simp: updates_ensureBackend updates_generateBackendAddr split: if_splits)
    with eq \<open>SplitMetaNamespaceKey key = Inr nn\<close> nn Inr show ?thesis by auto
  qed
qed

subsection \<open>Where a periodic verdict can come from\<close>

lemma ensureSwitch_Periodic:
  assumes "fst (ensureSwitch c st b rsp) = PeriodicResult p"
  shows "orsp_Status rsp = StatusSucc
         \<and> (\<exists>policy. EnsurePolicy (Spec b) = Some policy \<and> Policy policy = PolicyAlways
               \<and> p = GetDuration (MinPeriod policy) (DefaultEnsurePeriod c))"
  using assms
  by (auto simp: ensureSwitch_def addCondition_def Let_def split: if_splits option.splits)

lemma ensureBackend_Periodic:
  assumes "fst (ensureBackend c st b) = PeriodicResult p"
  shows "\<exists>driver rsp policy. getDriver c b = Inr driver
           \<and> CallEnsureBackend c driver (operationRequest c ''ensureBackend'' b) = Inr rsp
           \<and> orsp_Status rsp = StatusSucc
           \<and> EnsurePolicy (Spec b) = Some policy \<and> Policy policy = PolicyAlways
           \<and> p = GetDuration (MinPeriod policy) (DefaultEnsurePeriod c)"
  using assms
  by (auto simp: ensureBackend_def Let_def dest!: ensureSwitch_Periodic
           split: prod.splits bool.splits sum.splits)

lemma generateBackendAddr_not_Periodic: "fst (generateBackendAddr c st b) \<noteq> PeriodicResult p"
  by (auto simp: generateBackendAddr_def generateSwitch_def Let_def
           split: sum.splits prod.splits option.splits)

lemma deregisterBackend_not_Periodic: "fst (deregisterBackend c st b) \<noteq> PeriodicResult p"
  by (auto simp: deregisterBackend_def removeFinalizer_eq Let_def
           split: sum.splits option.splits)

lemma syncBackendRecord_Periodic:
  assumes "fst (syncBackendRecord c st key) = PeriodicResult p"
  shows "\<exists>namespace name b. SplitMetaNamespaceKey key = Inr (namespace, name)
           \<and> brLister c namespace name = Inr b
           \<and> DeletionTimestamp b = None \<and> BackendAddr (Status b) \<noteq> []
           \<and> syncBackendRecord c st key = ensureBackend c st b"
  using assms
  by (auto simp: syncBackendRecord_def generateBackendAddr_not_Periodic
                 deregisterBackend_not_Periodic
           split: sum.splits prod.splits if_splits)

lemma ensureBackend_Succ_verdict:
  assumes "inProgressDeleting st (deletingKey b) = None"
    and "getDriver c b = Inr driver"
    and "CallEnsureBackend c driver (operationRequest c ''ensureBackend'' b) = Inr rsp"
    and "orsp_Status rsp = StatusSucc"
    and "\<forall>r\<in>set (writes (new_actions st (snd (ensureBackend c st b)))).
           client_UpdateStatus c r = None"
  shows "fst (ensureBackend c st b) =
           (case EnsurePolicy (Spec b) of
              None \<Rightarrow> SuccResult
            | Some policy \<Rightarrow>
                if Policy policy = PolicyAlways
                then PeriodicResult (GetDuration (MinPeriod policy) (DefaultEnsurePeriod c))
                else SuccResult)"
  using assms
  by (auto simp: ensureBackend_def sameAddrDeleting_def ensureSwitch_def addCondition_def
                 new_actions_def Let_def
           split: option.splits)

subsection \<open>Conditions and generator entries\<close>

lemma AddBackendCondition_has:
  "\<exists>cnd\<in>set (AddBackendCondition cs e).
      cond_Type cnd = cond_Type e \<and> cond_Status cnd = cond_Status e \<and> Message cnd = Message e"
  by (induction cs) auto

lemma generatorEntries_generateBackendAddr:
  assumes "getDriver c b = Inr driver"
  shows "generatorEntries (new_actions st (snd (generateBackendAddr c st b))) =
           (if PodBackendInfo (Spec b) \<noteq> None then [EnterGeneratePodAddr]
            else if ServiceBackendInfo (Spec b) \<noteq> None then [EnterGenerateServiceAddr]
            else if StaticAddr (Spec b) \<noteq> None then [EnterGenerateStaticAddr]
            else [])"
proof -
  obtain res s1 where disp: "generateDispatch c st b driver = (res, s1)"
    by (cases "generateDispatch c st b driver")
  from log_generateDispatch[of c st b driver] disp
  obtain xs where xs: "log s1 = log st @ xs"
    "generatorEntries xs =
            (if PodBackendInfo (Spec b) \<noteq> None then [EnterGeneratePodAddr]
             else if ServiceBackendInfo (Spec b) \<noteq> None then [EnterGenerateServiceAddr]
             else if StaticAddr (Spec b) \<noteq> None then [EnterGenerateStaticAddr]
             else [])"
    by auto
  show ?thesis
  proof (cases res)
    case (Inl err)
    with assms disp xs show ?thesis
      by (simp add: generateBackendAddr_def new_actions_log)
  next
    case (Inr rsp)
    from log_generateSwitch[of c s1 b rsp]
    obtain ys where ys: "log (snd (generateSwitch c s1 b rsp)) = log s1 @ ys"
      "generatorEntries ys = []"
      by blast
    have "log (snd (generateBackendAddr c st b)) = log st @ (xs @ ys)"
      using assms disp Inr xs(1) ys(1) by (simp add: generateBackendAddr_def)
    then have "new_actions st (snd (generateBackendAddr c st b)) = xs @ ys"
      by (rule new_actions_log)
    with xs(2) ys(2) show ?thesis by simp
  qed
qed

lemma generatorEntries_at_most_one:
  "length (generatorEntries (new_actions st (snd (generateBackendAddr c st b)))) \<le> 1"
  using log_generateBackendAddr[of c st b] by (auto simp: new_actions_log)

subsection \<open>The branches of the webhook client\<close>




subsection \<open>Where a written address comes from\<close>

lemma BackendAddr_monotone_paths:
  assumes "SplitMetaNamespaceKey key = Inr (namespace, name)"
    and "brLister c namespace name = Inr backend"
  shows "(BackendAddr (Status backend) \<noteq> [] \<longrightarrow>
            (\<forall>r\<in>set (writes (new_actions st (snd (syncBackendRecord c st key)))).
               BackendAddr (Status r) = BackendAddr (Status backend)))
       \<and> (\<forall>r\<in>set (writes (new_actions st (snd (syncBackendRecord c st key)))).
            BackendAddr (Status r) \<noteq> BackendAddr (Status backend) \<longrightarrow>
              BackendAddr (Status backend) = [] \<and> DeletionTimestamp backend = None
              \<and> syncBackendRecord c st key = generateBackendAddr c st backend
              \<and> (\<exists>driver rsp s1. getDriver c backend = Inr driver
                    \<and> generateDispatch c st backend driver = (Inr rsp, s1)
                    \<and> grsp_Status rsp = StatusSucc
                    \<and> BackendAddr (Status r) = grsp_BackendAddr rsp))"
proof -
  let ?new = "new_actions st (snd (syncBackendRecord c st key))"
  have eq: "syncBackendRecord c st key =
      (if DeletionTimestamp backend \<noteq> None then
         (if \<not> HasFinalizer (Finalizers backend) FinalizerDeregisterBackend
          then (SuccResult, st) else deregisterBackend c st backend)
       else if BackendAddr (Status backend) = [] then generateBackendAddr c st backend
       else ensureBackend c st backend)"
    using assms by (simp add: syncBackendRecord_def)
  consider
    (nothing) "syncBackendRecord c st key = (SuccResult, st)"
  | (dereg) "syncBackendRecord c st key = deregisterBackend c st backend"
  | (gen) "DeletionTimestamp backend = None" "BackendAddr (Status backend) = []"
      "syncBackendRecord c st key = generateBackendAddr c st backend"
  | (ens) "BackendAddr (Status backend) \<noteq> []"
      "syncBackendRecord c st key = ensureBackend c st backend"
    by (cases "DeletionTimestamp backend = None";
        cases "HasFinalizer (Finalizers backend) FinalizerDeregisterBackend";
        cases "BackendAddr (Status backend) = []") (simp_all add: eq)
  then show ?thesis
  proof cases
    case nothing
    then show ?thesis by simp
  next
    case dereg
    from log_deregisterBackend[of c st backend]
    obtain xs where xs: "log (snd (deregisterBackend c st backend)) = log st @ xs"
      "\<forall>r\<in>set (writes xs). BackendAddr (Status r) = BackendAddr (Status backend)"
      by (auto split: if_splits)
    from xs(1) dereg have "?new = xs" by (simp add: new_actions_log)
    with xs(2) show ?thesis by simp
  next
    case gen
    from log_generateBackendAddr[of c st backend]
    obtain xs where xs: "log (snd (generateBackendAddr c st backend)) = log st @ xs"
      "\<forall>r\<in>set (writes xs).
          \<exists>driver rsp s1. getDriver c backend = Inr driver
            \<and> generateDispatch c st backend driver = (Inr rsp, s1)
            \<and> grsp_Status rsp = StatusSucc
            \<and> r = backend\<lparr>Status := (Status backend)\<lparr>BackendAddr := grsp_BackendAddr rsp\<rparr>\<rparr>"
      by blast
    from xs(1) gen have new: "?new = xs" by (simp add: new_actions_log)
    show ?thesis
      unfolding new using gen xs(2) by fastforce
  next
    case ens
    from log_ensureBackend[of c st backend]
    obtain xs where xs: "log (snd (ensureBackend c st backend)) = log st @ xs"
      "\<forall>r\<in>set (writes xs). BackendAddr (Status r) = BackendAddr (Status backend)"
      by blast
    from xs(1) ens have "?new = xs" by (simp add: new_actions_log)
    with xs(2) show ?thesis by simp
  qed
qed

lemma generateDispatch_origin:
  assumes "generateDispatch c st b driver = (Inr rsp, s1)"
  shows "(\<forall>info. PodBackendInfo (Spec b) = Some info \<longrightarrow>
            (\<exists>pod. podLister c (Namespace b) (pod_Name info) = Inr pod
               \<and> CallGenerateBackendAddr c driver
                    \<lparr>greq_RecordID = ''generateBackendAddr('' @ UID b @ '')'',
                     greq_RetryID = NewUUID c,
                     greq_LBInfo = LBInfo (Spec b),
                     greq_LBAttributes = LBAttributes (Spec b),
                     greq_PodBackend = Some \<lparr>pbr_Pod = pod, pbr_Port = pod_Port info\<rparr>,
                     greq_ServiceBackend = None\<rparr> = Inr rsp))
       \<and> (\<forall>info. PodBackendInfo (Spec b) = None \<and> ServiceBackendInfo (Spec b) = Some info \<longrightarrow>
            (\<exists>node svc. nodeLister c (svc_NodeName info) = Inr node
               \<and> svcLister c (Namespace b) (svc_Name info) = Inr svc
               \<and> CallGenerateBackendAddr c driver
                    \<lparr>greq_RecordID = ''generateBackendAddr('' @ UID b @ '')'',
                     greq_RetryID = NewUUID c,
                     greq_LBInfo = LBInfo (Spec b),
                     greq_LBAttributes = LBAttributes (Spec b),
                     greq_PodBackend = None,
                     greq_ServiceBackend =
                       Some \<lparr>sbr_Service = svc, sbr_Port = svc_Port info,
                             sbr_NodeName = node_Name node,
                             sbr_NodeAddresses = node_Addresses node\<rparr>\<rparr> = Inr rsp))
       \<and> (PodBackendInfo (Spec b) = None \<and> ServiceBackendInfo (Spec b) = None \<longrightarrow>
            grsp_Status rsp = StatusSucc
            \<and> StaticAddr (Spec b) = Some (grsp_BackendAddr rsp))"
  using assms
  by (auto simp: generateDispatch_def generatePodAddr_def generateServiceAddr_def
                 generateStaticAddr_def Let_def
           split: if_splits option.splits sum.splits)

lemma writes_generateBackendAddr_pod:
  assumes "getDriver c b = Inr driver"
    and "PodBackendInfo (Spec b) = Some info"
    and "podLister c (Namespace b) (pod_Name info) = Inr pod"
    and "CallGenerateBackendAddr c driver
           \<lparr>greq_RecordID = ''generateBackendAddr('' @ UID b @ '')'',
            greq_RetryID = NewUUID c,
            greq_LBInfo = LBInfo (Spec b),
            greq_LBAttributes = LBAttributes (Spec b),
            greq_PodBackend = Some \<lparr>pbr_Pod = pod, pbr_Port = pod_Port info\<rparr>,
            greq_ServiceBackend = None\<rparr> = Inr rsp"
    and "grsp_Status rsp = StatusSucc"
  shows "writes (new_actions st (snd (generateBackendAddr c st b)))
           = [b\<lparr>Status := (Status b)\<lparr>BackendAddr := grsp_BackendAddr rsp\<rparr>\<rparr>]"
  using assms
  by (auto simp: generateBackendAddr_def generateDispatch_def generatePodAddr_def
                 generateSwitch_def new_actions_def Let_def
           split: option.splits)

lemma writes_generateBackendAddr_service:
  assumes "getDriver c b = Inr driver"
    and "PodBackendInfo (Spec b) = None"
    and "ServiceBackendInfo (Spec b) = Some info"
    and "nodeLister c (svc_NodeName info) = Inr node"
    and "svcLister c (Namespace b) (svc_Name info) = Inr svc"
    and "CallGenerateBackendAddr c driver
           \<lparr>greq_RecordID = ''generateBackendAddr('' @ UID b @ '')'',
            greq_RetryID = NewUUID c,
            greq_LBInfo = LBInfo (Spec b),
            greq_LBAttributes = LBAttributes (Spec b),
            greq_PodBackend = None,
            greq_ServiceBackend =
              Some \<lparr>sbr_Service = svc, sbr_Port = svc_Port info,
                    sbr_NodeName = node_Name node,
                    sbr_NodeAddresses = node_Addresses node\<rparr>\<rparr> = Inr rsp"
    and "grsp_Status rsp = StatusSucc"
  shows "writes (new_actions st (snd (generateBackendAddr c st b)))
           = [b\<lparr>Status := (Status b)\<lparr>BackendAddr := grsp_BackendAddr rsp\<rparr>\<rparr>]"
  using assms
  by (auto simp: generateBackendAddr_def generateDispatch_def generateServiceAddr_def
                 generateSwitch_def new_actions_def Let_def
           split: option.splits)

lemma writes_generateBackendAddr_origin:
  assumes "r \<in> set (writes (new_actions st (snd (generateBackendAddr c st b))))"
  shows "\<exists>driver rsp. getDriver c b = Inr driver \<and> grsp_Status rsp = StatusSucc
           \<and> r = b\<lparr>Status := (Status b)\<lparr>BackendAddr := grsp_BackendAddr rsp\<rparr>\<rparr>
           \<and> (\<forall>info. PodBackendInfo (Spec b) = Some info \<longrightarrow>
            (\<exists>pod. podLister c (Namespace b) (pod_Name info) = Inr pod
               \<and> CallGenerateBackendAddr c driver
                    \<lparr>greq_RecordID = ''generateBackendAddr('' @ UID b @ '')'',
                     greq_RetryID = NewUUID c,
                     greq_LBInfo = LBInfo (Spec b),
                     greq_LBAttributes = LBAttributes (Spec b),
                     greq_PodBackend = Some \<lparr>pbr_Pod = pod, pbr_Port = pod_Port info\<rparr>,
                     greq_ServiceBackend = None\<rparr> = Inr rsp))
           \<and> (\<forall>info. PodBackendInfo (Spec b) = None \<and> ServiceBackendInfo (Spec b) = Some info \<longrightarrow>
            (\<exists>node svc. nodeLister c (svc_NodeName info) = Inr node
               \<and> svcLister c (Namespace b) (svc_Name info) = Inr svc
               \<and> CallGenerateBackendAddr c driver
                    \<lparr>greq_RecordID = ''generateBackendAddr('' @ UID b @ '')'',
                     greq_RetryID = NewUUID c,
                     greq_LBInfo = LBInfo (Spec b),
                     greq_LBAttributes = LBAttributes (Spec b),
                     greq_PodBackend = None,
                     greq_ServiceBackend =
                       Some \<lparr>sbr_Service = svc, sbr_Port = svc_Port info,
                             sbr_NodeName = node_Name node,
                             sbr_NodeAddresses = node_Addresses node\<rparr>\<rparr> = Inr rsp))
           \<and> (PodBackendInfo (Spec b) = None \<and> ServiceBackendInfo (Spec b) = None \<longrightarrow>
                StaticAddr (Spec b) = Some (grsp_BackendAddr rsp))"
proof -
  from log_generateBackendAddr[of c st b]
  obtain xs where xs: "log (snd (generateBackendAddr c st b)) = log st @ xs"
    "\<forall>r\<in>set (writes xs).
        \<exists>driver rsp s1. getDriver c b = Inr driver
          \<and> generateDispatch c st b driver = (Inr rsp, s1)
          \<and> grsp_Status rsp = StatusSucc
          \<and> r = b\<lparr>Status := (Status b)\<lparr>BackendAddr := grsp_BackendAddr rsp\<rparr>\<rparr>"
    by blast
  from xs(1) have "new_actions st (snd (generateBackendAddr c st b)) = xs"
    by (rule new_actions_log)
  with assms xs(2) obtain driver rsp s1 where d: "getDriver c b = Inr driver"
    "generateDispatch c st b driver = (Inr rsp, s1)" "grsp_Status rsp = StatusSucc"
    "r = b\<lparr>Status := (Status b)\<lparr>BackendAddr := grsp_BackendAddr rsp\<rparr>\<rparr>"
    by auto
  from generateDispatch_origin[OF d(2)] d(1,3,4) show ?thesis
    by blast
qed

subsection \<open>Evaluation of the fakes\<close>

lemma split_default_rec_a:
  "SplitMetaNamespaceKey ''default/rec-a'' = Inr (''default'', ''rec-a'')"
  by (simp add: SplitMetaNamespaceKey_def)

lemmas fake_defs = fakeEnv_def fakeRecord_def emptyState_def fakeDriver_def noAnswer_def
  opResponse_def genResponse_def

lemmas reconcile_defs = syncBackendRecord_def ensureBackend_def ensureSwitch_def
  deregisterBackend_def removeFinalizer_eq generateBackendAddr_def generateDispatch_def
  generateSwitch_def generatePodAddr_def generateServiceAddr_def generateStaticAddr_def
  sameAddrDeleting_def storeDeletingBackend_def deletingKey_def getDriver_def
  GetDriverNamespace_def operationRequest_def addCondition_def do_action_def
  CalculateRetryInterval_def SplitMetaNamespaceKey_def FinalizerDeregisterBackend_def
  StatusSucc_def StatusFail_def StatusRunning_def

section \<open>The same-address guard of the ensure path\<close>

text \<open>
  Claim C4. When the registry of records being deleted holds an entry under the key
  \<open>LBInfo|BackendAddr\<close> of the record that enters the ensure path, the reconcile emits one
  \<open>DelayedEnsureBackend\<close> event that names the stored record, returns
  \<open>Async(CalculateRetryInterval(0))\<close>, and does nothing else: no driver call, no
  write of the record, no change of the registry.
\<close>

theorem ensureBackend_delayed_by_deleting_record:
  assumes "inProgressDeleting st (LBInfo (Spec backend) @ ''|'' @ BackendAddr (Status backend))
             = Some name"
  shows "ensureBackend c st backend =
           (AsyncResult (CalculateRetryInterval (DefaultRetryInterval c) 0),
            st\<lparr>log := log st @
              [Eventf backend EventTypeNormal ''DelayedEnsureBackend''
                 ''ensureBackend will start once %s is finished'' [Str name]]\<rparr>)
         \<and> driverCalls (new_actions st (snd (ensureBackend c st backend))) = []
         \<and> writes (new_actions st (snd (ensureBackend c st backend))) = []"
  using assms by (simp add: ensureBackend_def sameAddrDeleting_def deletingKey_def do_action_def)

text \<open>Scenario 4 of the spec: record B meets the entry of record A being deleted.\<close>

theorem ensureBackend_delayed_by_deleting_record_witness:
  "inProgressDeleting (emptyState\<lparr>inProgressDeleting := [''lb1|1.1.1.1'' \<mapsto> ''rec-b'']\<rparr>)
     (LBInfo (Spec fakeRecord) @ ''|'' @ BackendAddr (Status fakeRecord)) = Some ''rec-b''
   \<and> fst (ensureBackend (fakeEnv [fakeRecord] noAnswer noAnswer noAnswer None)
        (emptyState\<lparr>inProgressDeleting := [''lb1|1.1.1.1'' \<mapsto> ''rec-b'']\<rparr>) fakeRecord)
      = AsyncResult 10
   \<and> log (snd (ensureBackend (fakeEnv [fakeRecord] noAnswer noAnswer noAnswer None)
        (emptyState\<lparr>inProgressDeleting := [''lb1|1.1.1.1'' \<mapsto> ''rec-b'']\<rparr>) fakeRecord))
      = [Eventf fakeRecord EventTypeNormal ''DelayedEnsureBackend''
           ''ensureBackend will start once %s is finished'' [Str ''rec-b'']]"
proof -
  have h: "inProgressDeleting (emptyState\<lparr>inProgressDeleting := [''lb1|1.1.1.1'' \<mapsto> ''rec-b'']\<rparr>)
     (LBInfo (Spec fakeRecord) @ ''|'' @ BackendAddr (Status fakeRecord)) = Some ''rec-b''"
    by (simp add: fakeRecord_def emptyState_def)
  show ?thesis
    using h ensureBackend_delayed_by_deleting_record
              [OF h, of "fakeEnv [fakeRecord] noAnswer noAnswer noAnswer None"]
    by (simp add: fakeEnv_def CalculateRetryInterval_def emptyState_def)
qed

section \<open>Finalizer removal\<close>



section \<open>The dispatch of the reconciler\<close>

text \<open>
  Claim C1. For a key that names a record, \<open>syncBackendRecord\<close> returns one verdict, chosen
  as follows: a record that is not found gives \<open>Success\<close>; a record with
  \<open>DeletionTimestamp\<close> set gives \<open>Success\<close> when the finalizer \<open>deregister-backend\<close> is
  absent and runs the deregister path when it is present; a record without
  \<open>DeletionTimestamp\<close> runs the generate path when \<open>Status.BackendAddr\<close> is empty and the
  ensure path otherwise.
\<close>

theorem syncBackendRecord_dispatch:
  assumes "SplitMetaNamespaceKey key = Inr (namespace, name)"
  shows "(\<forall>err. brLister c namespace name = Inl err \<and> IsNotFound err \<longrightarrow>
            syncBackendRecord c st key = (SuccResult, st))
       \<and> (\<forall>backend. brLister c namespace name = Inr backend \<longrightarrow>
            (DeletionTimestamp backend \<noteq> None
               \<and> \<not> HasFinalizer (Finalizers backend) FinalizerDeregisterBackend \<longrightarrow>
                 syncBackendRecord c st key = (SuccResult, st))
          \<and> (DeletionTimestamp backend \<noteq> None
               \<and> HasFinalizer (Finalizers backend) FinalizerDeregisterBackend \<longrightarrow>
                 syncBackendRecord c st key = deregisterBackend c st backend)
          \<and> (DeletionTimestamp backend = None \<and> BackendAddr (Status backend) = [] \<longrightarrow>
                 syncBackendRecord c st key = generateBackendAddr c st backend)
          \<and> (DeletionTimestamp backend = None \<and> BackendAddr (Status backend) \<noteq> [] \<longrightarrow>
                 syncBackendRecord c st key = ensureBackend c st backend))"
  using assms by (simp add: syncBackendRecord_def)

text \<open>
  One reconcile for each of the five cases: no record, a deleted record without and with
  the finalizer, a record without address, a record with address.
\<close>

theorem syncBackendRecord_dispatch_witness:
  "SplitMetaNamespaceKey ''default/rec-a'' = Inr (''default'', ''rec-a'')
   \<and> syncBackendRecord (fakeEnv [] noAnswer noAnswer noAnswer None) emptyState ''default/rec-a''
       = (SuccResult, emptyState)
   \<and> syncBackendRecord
         (fakeEnv [fakeRecord\<lparr>DeletionTimestamp := Some 5, Finalizers := []\<rparr>]
            noAnswer noAnswer noAnswer None) emptyState ''default/rec-a''
       = (SuccResult, emptyState)
   \<and> driverCalls (log (snd (syncBackendRecord
         (fakeEnv [fakeRecord\<lparr>DeletionTimestamp := Some 5\<rparr>]
            noAnswer noAnswer (Inr (opResponse StatusSucc [])) None) emptyState ''default/rec-a'')))
       = [DeregBackend]
   \<and> generatorEntries (log (snd (syncBackendRecord
         (fakeEnv [fakeRecord\<lparr>Status := (Status fakeRecord)\<lparr>BackendAddr := []\<rparr>\<rparr>]
            noAnswer noAnswer noAnswer None) emptyState ''default/rec-a'')))
       = [EnterGenerateStaticAddr]
   \<and> driverCalls (log (snd (syncBackendRecord
         (fakeEnv [fakeRecord] noAnswer (Inr (opResponse StatusSucc [])) noAnswer None)
         emptyState ''default/rec-a'')))
       = [EnsureBackend]"
  using
    syncBackendRecord_dispatch [OF split_default_rec_a,
      of "fakeEnv [] noAnswer noAnswer noAnswer None" emptyState]
    syncBackendRecord_dispatch [OF split_default_rec_a,
      of "fakeEnv [fakeRecord\<lparr>DeletionTimestamp := Some 5, Finalizers := []\<rparr>]
            noAnswer noAnswer noAnswer None" emptyState]
    syncBackendRecord_dispatch [OF split_default_rec_a,
      of "fakeEnv [fakeRecord\<lparr>DeletionTimestamp := Some 5\<rparr>]
            noAnswer noAnswer (Inr (opResponse StatusSucc [])) None" emptyState]
    syncBackendRecord_dispatch [OF split_default_rec_a,
      of "fakeEnv [fakeRecord\<lparr>Status := (Status fakeRecord)\<lparr>BackendAddr := []\<rparr>\<rparr>]
            noAnswer noAnswer noAnswer None" emptyState]
    syncBackendRecord_dispatch [OF split_default_rec_a,
      of "fakeEnv [fakeRecord] noAnswer (Inr (opResponse StatusSucc [])) noAnswer None" emptyState]
  by (simp add: fake_defs reconcile_defs Let_def)

section \<open>The address is written once\<close>

text \<open>
  Claim C2. \<open>Status.BackendAddr\<close> is monotone. Every record that a reconcile hands to the
  client carries the address that the record had at entry, when that address was not empty.
  A write with another address happens only on the generate path, which runs only for a
  record without deletion timestamp whose address is empty, and the address written is the
  \<open>BackendAddr\<close> of a response with status \<open>Succ\<close>: the driver's answer to the
  \<open>generateBackendAddr\<close> call for the pod, or else for the service and node, that the
  record names, and the record's static address when it names neither. Conversely, when the
  driver answers that call with \<open>Succ\<close>, the record with the answer's address is what the
  reconcile writes.
\<close>

theorem BackendAddr_monotone:
  assumes "SplitMetaNamespaceKey key = Inr (namespace, name)"
    and "brLister c namespace name = Inr backend"
  shows "(BackendAddr (Status backend) \<noteq> [] \<longrightarrow>
            (\<forall>r\<in>set (writes (new_actions st (snd (syncBackendRecord c st key)))).
               BackendAddr (Status r) = BackendAddr (Status backend)))
       \<and> (\<forall>r\<in>set (writes (new_actions st (snd (syncBackendRecord c st key)))).
            BackendAddr (Status r) \<noteq> BackendAddr (Status backend) \<longrightarrow>
              BackendAddr (Status backend) = [] \<and> DeletionTimestamp backend = None
              \<and> syncBackendRecord c st key = generateBackendAddr c st backend
              \<and> (\<exists>driver rsp s1. getDriver c backend = Inr driver
                    \<and> generateDispatch c st backend driver = (Inr rsp, s1)
                    \<and> grsp_Status rsp = StatusSucc
                    \<and> BackendAddr (Status r) = grsp_BackendAddr rsp))
       \<and> (\<forall>r\<in>set (writes (new_actions st (snd (syncBackendRecord c st key)))).
            BackendAddr (Status r) \<noteq> BackendAddr (Status backend) \<longrightarrow>
              (\<exists>driver rsp. getDriver c backend = Inr driver
                 \<and> grsp_Status rsp = StatusSucc
                 \<and> BackendAddr (Status r) = grsp_BackendAddr rsp
                 \<and> (\<forall>info. PodBackendInfo (Spec backend) = Some info \<longrightarrow>
                      (\<exists>pod. podLister c (Namespace backend) (pod_Name info) = Inr pod
                         \<and> CallGenerateBackendAddr c driver
                              \<lparr>greq_RecordID = ''generateBackendAddr('' @ UID backend @ '')'',
                       greq_RetryID = NewUUID c,
                       greq_LBInfo = LBInfo (Spec backend),
                       greq_LBAttributes = LBAttributes (Spec backend),
                       greq_PodBackend = Some \<lparr>pbr_Pod = pod, pbr_Port = pod_Port info\<rparr>,
                       greq_ServiceBackend = None\<rparr> = Inr rsp))
                 \<and> (\<forall>info. PodBackendInfo (Spec backend) = None
                        \<and> ServiceBackendInfo (Spec backend) = Some info \<longrightarrow>
                      (\<exists>node svc. nodeLister c (svc_NodeName info) = Inr node
                         \<and> svcLister c (Namespace backend) (svc_Name info) = Inr svc
                         \<and> CallGenerateBackendAddr c driver
                              \<lparr>greq_RecordID = ''generateBackendAddr('' @ UID backend @ '')'',
                       greq_RetryID = NewUUID c,
                       greq_LBInfo = LBInfo (Spec backend),
                       greq_LBAttributes = LBAttributes (Spec backend),
                       greq_PodBackend = None,
                       greq_ServiceBackend =
                         Some \<lparr>sbr_Service = svc, sbr_Port = svc_Port info,
                               sbr_NodeName = node_Name node,
                               sbr_NodeAddresses = node_Addresses node\<rparr>\<rparr> = Inr rsp))
                 \<and> (PodBackendInfo (Spec backend) = None
                        \<and> ServiceBackendInfo (Spec backend) = None \<longrightarrow>
                      StaticAddr (Spec backend) = Some (grsp_BackendAddr rsp))))
       \<and> (\<forall>driver info pod rsp.
            DeletionTimestamp backend = None \<and> BackendAddr (Status backend) = []
            \<and> getDriver c backend = Inr driver
            \<and> PodBackendInfo (Spec backend) = Some info
            \<and> podLister c (Namespace backend) (pod_Name info) = Inr pod
            \<and> CallGenerateBackendAddr c driver
                 \<lparr>greq_RecordID = ''generateBackendAddr('' @ UID backend @ '')'',
                       greq_RetryID = NewUUID c,
                       greq_LBInfo = LBInfo (Spec backend),
                       greq_LBAttributes = LBAttributes (Spec backend),
                       greq_PodBackend = Some \<lparr>pbr_Pod = pod, pbr_Port = pod_Port info\<rparr>,
                       greq_ServiceBackend = None\<rparr> = Inr rsp
            \<and> grsp_Status rsp = StatusSucc \<longrightarrow>
            writes (new_actions st (snd (syncBackendRecord c st key)))
              = [backend\<lparr>Status := (Status backend)\<lparr>BackendAddr := grsp_BackendAddr rsp\<rparr>\<rparr>])
       \<and> (\<forall>driver info node svc rsp.
            DeletionTimestamp backend = None \<and> BackendAddr (Status backend) = []
            \<and> getDriver c backend = Inr driver
            \<and> PodBackendInfo (Spec backend) = None
            \<and> ServiceBackendInfo (Spec backend) = Some info
            \<and> nodeLister c (svc_NodeName info) = Inr node
            \<and> svcLister c (Namespace backend) (svc_Name info) = Inr svc
            \<and> CallGenerateBackendAddr c driver
                 \<lparr>greq_RecordID = ''generateBackendAddr('' @ UID backend @ '')'',
                       greq_RetryID = NewUUID c,
                       greq_LBInfo = LBInfo (Spec backend),
                       greq_LBAttributes = LBAttributes (Spec backend),
                       greq_PodBackend = None,
                       greq_ServiceBackend =
                         Some \<lparr>sbr_Service = svc, sbr_Port = svc_Port info,
                               sbr_NodeName = node_Name node,
                               sbr_NodeAddresses = node_Addresses node\<rparr>\<rparr> = Inr rsp
            \<and> grsp_Status rsp = StatusSucc \<longrightarrow>
            writes (new_actions st (snd (syncBackendRecord c st key)))
              = [backend\<lparr>Status := (Status backend)\<lparr>BackendAddr := grsp_BackendAddr rsp\<rparr>\<rparr>])"
  (is "?A \<and> ?B \<and> ?C \<and> ?D \<and> ?E")
proof -
  let ?new = "new_actions st (snd (syncBackendRecord c st key))"
  note paths = BackendAddr_monotone_paths[OF assms, of st]
  have a: ?A by (rule conjunct1[OF paths])
  have b: ?B by (rule conjunct2[OF paths])
  have gen: "syncBackendRecord c st key = generateBackendAddr c st backend"
    if "DeletionTimestamp backend = None" "BackendAddr (Status backend) = []"
    using that assms by (simp add: syncBackendRecord_def)
  have c: ?C
  proof (intro ballI impI)
    fix r
    assume r: "r \<in> set (writes ?new)"
      and ne: "BackendAddr (Status r) \<noteq> BackendAddr (Status backend)"
    from b r ne have "syncBackendRecord c st key = generateBackendAddr c st backend"
      by blast
    with r have "r \<in> set (writes (new_actions st (snd (generateBackendAddr c st backend))))"
      by simp
    from writes_generateBackendAddr_origin[OF this]
    obtain driver rsp where o: "getDriver c backend = Inr driver"
      "grsp_Status rsp = StatusSucc"
      "r = backend\<lparr>Status := (Status backend)\<lparr>BackendAddr := grsp_BackendAddr rsp\<rparr>\<rparr>"
      "\<forall>info. PodBackendInfo (Spec backend) = Some info \<longrightarrow>
                      (\<exists>pod. podLister c (Namespace backend) (pod_Name info) = Inr pod
                         \<and> CallGenerateBackendAddr c driver
                              \<lparr>greq_RecordID = ''generateBackendAddr('' @ UID backend @ '')'',
                       greq_RetryID = NewUUID c,
                       greq_LBInfo = LBInfo (Spec backend),
                       greq_LBAttributes = LBAttributes (Spec backend),
                       greq_PodBackend = Some \<lparr>pbr_Pod = pod, pbr_Port = pod_Port info\<rparr>,
                       greq_ServiceBackend = None\<rparr> = Inr rsp)"
      "\<forall>info. PodBackendInfo (Spec backend) = None
                        \<and> ServiceBackendInfo (Spec backend) = Some info \<longrightarrow>
                      (\<exists>node svc. nodeLister c (svc_NodeName info) = Inr node
                         \<and> svcLister c (Namespace backend) (svc_Name info) = Inr svc
                         \<and> CallGenerateBackendAddr c driver
                              \<lparr>greq_RecordID = ''generateBackendAddr('' @ UID backend @ '')'',
                       greq_RetryID = NewUUID c,
                       greq_LBInfo = LBInfo (Spec backend),
                       greq_LBAttributes = LBAttributes (Spec backend),
                       greq_PodBackend = None,
                       greq_ServiceBackend =
                         Some \<lparr>sbr_Service = svc, sbr_Port = svc_Port info,
                               sbr_NodeName = node_Name node,
                               sbr_NodeAddresses = node_Addresses node\<rparr>\<rparr> = Inr rsp)"
      "PodBackendInfo (Spec backend) = None \<and> ServiceBackendInfo (Spec backend) = None \<longrightarrow>
                      StaticAddr (Spec backend) = Some (grsp_BackendAddr rsp)"
      by blast
    from o(3) have "BackendAddr (Status r) = grsp_BackendAddr rsp" by simp
    with o(1,2,4,5,6)
    show "(\<exists>driver rsp. getDriver c backend = Inr driver
                 \<and> grsp_Status rsp = StatusSucc
                 \<and> BackendAddr (Status r) = grsp_BackendAddr rsp
                 \<and> (\<forall>info. PodBackendInfo (Spec backend) = Some info \<longrightarrow>
                      (\<exists>pod. podLister c (Namespace backend) (pod_Name info) = Inr pod
                         \<and> CallGenerateBackendAddr c driver
                              \<lparr>greq_RecordID = ''generateBackendAddr('' @ UID backend @ '')'',
                       greq_RetryID = NewUUID c,
                       greq_LBInfo = LBInfo (Spec backend),
                       greq_LBAttributes = LBAttributes (Spec backend),
                       greq_PodBackend = Some \<lparr>pbr_Pod = pod, pbr_Port = pod_Port info\<rparr>,
                       greq_ServiceBackend = None\<rparr> = Inr rsp))
                 \<and> (\<forall>info. PodBackendInfo (Spec backend) = None
                        \<and> ServiceBackendInfo (Spec backend) = Some info \<longrightarrow>
                      (\<exists>node svc. nodeLister c (svc_NodeName info) = Inr node
                         \<and> svcLister c (Namespace backend) (svc_Name info) = Inr svc
                         \<and> CallGenerateBackendAddr c driver
                              \<lparr>greq_RecordID = ''generateBackendAddr('' @ UID backend @ '')'',
                       greq_RetryID = NewUUID c,
                       greq_LBInfo = LBInfo (Spec backend),
                       greq_LBAttributes = LBAttributes (Spec backend),
                       greq_PodBackend = None,
                       greq_ServiceBackend =
                         Some \<lparr>sbr_Service = svc, sbr_Port = svc_Port info,
                               sbr_NodeName = node_Name node,
                               sbr_NodeAddresses = node_Addresses node\<rparr>\<rparr> = Inr rsp))
                 \<and> (PodBackendInfo (Spec backend) = None
                        \<and> ServiceBackendInfo (Spec backend) = None \<longrightarrow>
                      StaticAddr (Spec backend) = Some (grsp_BackendAddr rsp)))"
      by blast
  qed
  have d: ?D
    using gen writes_generateBackendAddr_pod[where c=c and b=backend and st=st]
    by (intro allI impI) (elim conjE, simp)
  have e: ?E
    using gen writes_generateBackendAddr_service[where c=c and b=backend and st=st]
    by (intro allI impI) (elim conjE, simp)
  show ?thesis
    by (rule conjI[OF a conjI[OF b conjI[OF c conjI[OF d e]]]])
qed

text \<open>
  An ensure that succeeds on a record with address \<open>1.1.1.1\<close>; a generate on the same
  record without address, from its static address \<open>10.0.0.1:80\<close>; and generates for a pod
  and for a service, where the driver answers \<open>10.1.2.3:80\<close> and that address is written
  although the record also has the static address.
\<close>

theorem BackendAddr_monotone_witness:
  "SplitMetaNamespaceKey ''default/rec-a'' = Inr (''default'', ''rec-a'')
   \<and> brLister (fakeEnv [fakeRecord] noAnswer (Inr (opResponse StatusSucc [(''listener'', ''abc'')]))
                 noAnswer None) ''default'' ''rec-a'' = Inr fakeRecord
   \<and> BackendAddr (Status fakeRecord) = ''1.1.1.1''
   \<and> map (\<lambda>r. BackendAddr (Status r))
        (writes (new_actions emptyState (snd (syncBackendRecord
           (fakeEnv [fakeRecord] noAnswer (Inr (opResponse StatusSucc [(''listener'', ''abc'')]))
              noAnswer None) emptyState ''default/rec-a''))))
      = [''1.1.1.1'']
   \<and> brLister (fakeEnv [fakeRecord\<lparr>Status := (Status fakeRecord)\<lparr>BackendAddr := []\<rparr>\<rparr>]
                 noAnswer noAnswer noAnswer None) ''default'' ''rec-a''
      = Inr (fakeRecord\<lparr>Status := (Status fakeRecord)\<lparr>BackendAddr := []\<rparr>\<rparr>)
   \<and> map (\<lambda>r. BackendAddr (Status r))
        (writes (new_actions emptyState (snd (syncBackendRecord
           (fakeEnv [fakeRecord\<lparr>Status := (Status fakeRecord)\<lparr>BackendAddr := []\<rparr>\<rparr>]
              noAnswer noAnswer noAnswer None) emptyState ''default/rec-a''))))
      = [''10.0.0.1:80'']
   \<and> CallGenerateBackendAddr
        (fakeEnv [fakeRecord\<lparr>Spec := (Spec fakeRecord)
                \<lparr>PodBackendInfo := Some \<lparr>pod_Name = ''pod-1'',
                     pod_Port = \<lparr>PortNumber = 80, Protocol = ''TCP''\<rparr>\<rparr>\<rparr>,
              Status := (Status fakeRecord)\<lparr>BackendAddr := []\<rparr>\<rparr>]
              (Inr (genResponse StatusSucc ''10.1.2.3:80'')) noAnswer noAnswer None)
        fakeDriver
        \<lparr>greq_RecordID = ''generateBackendAddr(uid-a)'', greq_RetryID = ''uuid-1'',
         greq_LBInfo = ''lb1'', greq_LBAttributes = [],
         greq_PodBackend = Some \<lparr>pbr_Pod = Pod ''pod-1'',
                                  pbr_Port = \<lparr>PortNumber = 80, Protocol = ''TCP''\<rparr>\<rparr>,
         greq_ServiceBackend = None\<rparr>
      = Inr (genResponse StatusSucc ''10.1.2.3:80'')
   \<and> writes (new_actions emptyState (snd (syncBackendRecord
           (fakeEnv [fakeRecord\<lparr>Spec := (Spec fakeRecord)
                \<lparr>PodBackendInfo := Some \<lparr>pod_Name = ''pod-1'',
                     pod_Port = \<lparr>PortNumber = 80, Protocol = ''TCP''\<rparr>\<rparr>\<rparr>,
              Status := (Status fakeRecord)\<lparr>BackendAddr := []\<rparr>\<rparr>]
              (Inr (genResponse StatusSucc ''10.1.2.3:80'')) noAnswer noAnswer None)
           emptyState ''default/rec-a'')))
      = [fakeRecord\<lparr>Spec := (Spec fakeRecord)
                \<lparr>PodBackendInfo := Some \<lparr>pod_Name = ''pod-1'',
                     pod_Port = \<lparr>PortNumber = 80, Protocol = ''TCP''\<rparr>\<rparr>\<rparr>,
              Status := (Status fakeRecord)\<lparr>BackendAddr := ''10.1.2.3:80''\<rparr>\<rparr>]
   \<and> map (\<lambda>r. BackendAddr (Status r))
        (writes (new_actions emptyState (snd (syncBackendRecord
           (fakeEnv [fakeRecord\<lparr>Spec := (Spec fakeRecord)
                \<lparr>ServiceBackendInfo := Some \<lparr>svc_Name = ''svc-1'',
                     svc_Port = \<lparr>PortNumber = 80, Protocol = ''TCP''\<rparr>,
                     svc_NodeName = ''node-1''\<rparr>\<rparr>,
              Status := (Status fakeRecord)\<lparr>BackendAddr := []\<rparr>\<rparr>]
              (Inr (genResponse StatusSucc ''10.1.2.3:80'')) noAnswer noAnswer None)
           emptyState ''default/rec-a''))))
      = [''10.1.2.3:80'']"
proof -
  have h1: "brLister (fakeEnv [fakeRecord] noAnswer
                        (Inr (opResponse StatusSucc [(''listener'', ''abc'')])) noAnswer None)
              ''default'' ''rec-a'' = Inr fakeRecord"
    by (simp add: fake_defs)
  have h2: "brLister (fakeEnv [fakeRecord\<lparr>Status := (Status fakeRecord)\<lparr>BackendAddr := []\<rparr>\<rparr>]
                        noAnswer noAnswer noAnswer None) ''default'' ''rec-a''
      = Inr (fakeRecord\<lparr>Status := (Status fakeRecord)\<lparr>BackendAddr := []\<rparr>\<rparr>)"
    by (simp add: fake_defs)
  have h3: "brLister (fakeEnv [fakeRecord\<lparr>Spec := (Spec fakeRecord)
                \<lparr>PodBackendInfo := Some \<lparr>pod_Name = ''pod-1'',
                     pod_Port = \<lparr>PortNumber = 80, Protocol = ''TCP''\<rparr>\<rparr>\<rparr>,
              Status := (Status fakeRecord)\<lparr>BackendAddr := []\<rparr>\<rparr>]
              (Inr (genResponse StatusSucc ''10.1.2.3:80'')) noAnswer noAnswer None)
              ''default'' ''rec-a''
      = Inr (fakeRecord\<lparr>Spec := (Spec fakeRecord)
                \<lparr>PodBackendInfo := Some \<lparr>pod_Name = ''pod-1'',
                     pod_Port = \<lparr>PortNumber = 80, Protocol = ''TCP''\<rparr>\<rparr>\<rparr>,
              Status := (Status fakeRecord)\<lparr>BackendAddr := []\<rparr>\<rparr>)"
    by (simp add: fake_defs)
  have h4: "brLister (fakeEnv [fakeRecord\<lparr>Spec := (Spec fakeRecord)
                \<lparr>ServiceBackendInfo := Some \<lparr>svc_Name = ''svc-1'',
                     svc_Port = \<lparr>PortNumber = 80, Protocol = ''TCP''\<rparr>,
                     svc_NodeName = ''node-1''\<rparr>\<rparr>,
              Status := (Status fakeRecord)\<lparr>BackendAddr := []\<rparr>\<rparr>]
              (Inr (genResponse StatusSucc ''10.1.2.3:80'')) noAnswer noAnswer None)
              ''default'' ''rec-a''
      = Inr (fakeRecord\<lparr>Spec := (Spec fakeRecord)
                \<lparr>ServiceBackendInfo := Some \<lparr>svc_Name = ''svc-1'',
                     svc_Port = \<lparr>PortNumber = 80, Protocol = ''TCP''\<rparr>,
                     svc_NodeName = ''node-1''\<rparr>\<rparr>,
              Status := (Status fakeRecord)\<lparr>BackendAddr := []\<rparr>\<rparr>)"
    by (simp add: fake_defs)
  show ?thesis
    using BackendAddr_monotone [OF split_default_rec_a h1, of emptyState]
      BackendAddr_monotone [OF split_default_rec_a h2, of emptyState]
      BackendAddr_monotone [OF split_default_rec_a h3, of emptyState]
      BackendAddr_monotone [OF split_default_rec_a h4, of emptyState]
    by (simp add: fake_defs reconcile_defs new_actions_def Let_def)
qed

section \<open>When the finalizer is removed\<close>

text \<open>
  Claim C3. A reconcile hands a record to the client's \<open>Update\<close>, which is how the finalizer
  \<open>deregister-backend\<close> is removed, only on the deregister path, and only when
  \<open>Status.BackendAddr\<close> was empty at entry or the driver's answer to the deregister call of
  this reconcile had status \<open>Succ\<close>; the record handed over is the record at entry without
  the sentinel. In every other outcome of the deregister path (status \<open>Fail\<close>, \<open>Running\<close>
  or unknown, an error of the call, an error of the driver lookup) nothing is written, so the
  finalizer stays.
\<close>

theorem finalizer_removed_only_after_deregistration:
  fixes backend :: BackendRecord and c :: env
  defines "stripped \<equiv> backend\<lparr>Finalizers :=
                         RemoveFinalizer (Finalizers backend) FinalizerDeregisterBackend\<rparr>"
  defines "succeeded \<equiv>
             (\<exists>driver rsp. getDriver c backend = Inr driver
                \<and> CallDeregisterBackend c driver
                     (operationRequest c ''deregisterBackend'' backend) = Inr rsp
                \<and> orsp_Status rsp = StatusSucc)"
  shows "(\<forall>r\<in>set (updates (new_actions st (snd (deregisterBackend c st backend)))).
            r = stripped \<and> (BackendAddr (Status backend) = [] \<or> succeeded))
       \<and> (BackendAddr (Status backend) = [] \<or> succeeded \<longrightarrow>
            updates (new_actions st (snd (deregisterBackend c st backend))) = [stripped])
       \<and> (BackendAddr (Status backend) \<noteq> [] \<and> \<not> succeeded \<longrightarrow>
            writes (new_actions st (snd (deregisterBackend c st backend))) = [])
       \<and> (\<forall>key r. r \<in> set (updates (new_actions st (snd (syncBackendRecord c st key)))) \<longrightarrow>
            (\<exists>namespace name b. SplitMetaNamespaceKey key = Inr (namespace, name)
               \<and> brLister c namespace name = Inr b
               \<and> DeletionTimestamp b \<noteq> None
               \<and> HasFinalizer (Finalizers b) FinalizerDeregisterBackend
               \<and> syncBackendRecord c st key = deregisterBackend c st b))"
  unfolding stripped_def succeeded_def
  using updates_syncBackendRecord[of _ st c]
  by (simp add: updates_deregisterBackend writes_deregisterBackend)

text \<open>
  Deregistration answered with \<open>Succ\<close>, a record without address, deregistration answered
  with \<open>Running\<close>, and a call that fails.
\<close>

theorem finalizer_removed_only_after_deregistration_witness:
  "updates (new_actions emptyState (snd (deregisterBackend
       (fakeEnv [] noAnswer noAnswer (Inr (opResponse StatusSucc [])) None)
       emptyState (fakeRecord\<lparr>DeletionTimestamp := Some 5\<rparr>))))
     = [fakeRecord\<lparr>DeletionTimestamp := Some 5, Finalizers := []\<rparr>]
   \<and> updates (new_actions emptyState (snd (deregisterBackend
       (fakeEnv [] noAnswer noAnswer noAnswer None)
       emptyState (fakeRecord\<lparr>DeletionTimestamp := Some 5,
                               Status := (Status fakeRecord)\<lparr>BackendAddr := []\<rparr>\<rparr>))))
     = [fakeRecord\<lparr>DeletionTimestamp := Some 5, Finalizers := [],
                   Status := (Status fakeRecord)\<lparr>BackendAddr := []\<rparr>\<rparr>]
   \<and> writes (new_actions emptyState (snd (deregisterBackend
       (fakeEnv [] noAnswer noAnswer (Inr (opResponse StatusRunning [])) None)
       emptyState (fakeRecord\<lparr>DeletionTimestamp := Some 5\<rparr>))))
     = []
   \<and> writes (new_actions emptyState (snd (deregisterBackend
       (fakeEnv [] noAnswer noAnswer noAnswer None)
       emptyState (fakeRecord\<lparr>DeletionTimestamp := Some 5\<rparr>))))
     = []"
  using
    finalizer_removed_only_after_deregistration
      [of emptyState "fakeEnv [] noAnswer noAnswer (Inr (opResponse StatusSucc [])) None"
          "fakeRecord\<lparr>DeletionTimestamp := Some 5\<rparr>"]
    finalizer_removed_only_after_deregistration
      [of emptyState "fakeEnv [] noAnswer noAnswer noAnswer None"
          "fakeRecord\<lparr>DeletionTimestamp := Some 5,
                      Status := (Status fakeRecord)\<lparr>BackendAddr := []\<rparr>\<rparr>"]
    finalizer_removed_only_after_deregistration
      [of emptyState "fakeEnv [] noAnswer noAnswer (Inr (opResponse StatusRunning [])) None"
          "fakeRecord\<lparr>DeletionTimestamp := Some 5\<rparr>"]
    finalizer_removed_only_after_deregistration
      [of emptyState "fakeEnv [] noAnswer noAnswer noAnswer None"
          "fakeRecord\<lparr>DeletionTimestamp := Some 5\<rparr>"]
  by (simp add: fake_defs reconcile_defs new_actions_def Let_def)

section \<open>The periodic verdict\<close>

text \<open>
  Claim C8. A reconcile returns \<open>Periodic\<close> only from the ensure path, after the driver
  answered the ensure call with status \<open>Succ\<close>, for a record whose \<open>EnsurePolicy.Policy\<close>
  is \<open>Always\<close>; the period is the maximum of \<open>EnsurePolicy.MinPeriod\<close> and the default
  ensure period (the default alone when \<open>MinPeriod\<close> is absent). Conversely, when the driver
  answers \<open>Succ\<close> and the status write succeeds, the verdict is that \<open>Periodic\<close> for the
  policy \<open>Always\<close>, and \<open>Success\<close> without a policy or with another policy.
\<close>

theorem Periodic_only_from_ensure_Always:
  "(\<forall>key p. fst (syncBackendRecord c st key) = PeriodicResult p \<longrightarrow>
      (\<exists>namespace name b driver rsp policy.
         SplitMetaNamespaceKey key = Inr (namespace, name)
         \<and> brLister c namespace name = Inr b
         \<and> DeletionTimestamp b = None \<and> BackendAddr (Status b) \<noteq> []
         \<and> syncBackendRecord c st key = ensureBackend c st b
         \<and> getDriver c b = Inr driver
         \<and> CallEnsureBackend c driver (operationRequest c ''ensureBackend'' b) = Inr rsp
         \<and> orsp_Status rsp = StatusSucc
         \<and> EnsurePolicy (Spec b) = Some policy \<and> Policy policy = PolicyAlways
         \<and> p = (case MinPeriod policy of
                  None \<Rightarrow> DefaultEnsurePeriod c
                | Some minPeriod \<Rightarrow> max minPeriod (DefaultEnsurePeriod c))))
   \<and> (\<forall>b driver rsp.
         inProgressDeleting st (LBInfo (Spec b) @ ''|'' @ BackendAddr (Status b)) = None
         \<and> getDriver c b = Inr driver
         \<and> CallEnsureBackend c driver (operationRequest c ''ensureBackend'' b) = Inr rsp
         \<and> orsp_Status rsp = StatusSucc
         \<and> (\<forall>r\<in>set (writes (new_actions st (snd (ensureBackend c st b)))).
               client_UpdateStatus c r = None) \<longrightarrow>
         (\<forall>policy minPeriod. EnsurePolicy (Spec b) = Some policy \<and> Policy policy = PolicyAlways
             \<and> MinPeriod policy = Some minPeriod \<longrightarrow>
             fst (ensureBackend c st b) = PeriodicResult (max minPeriod (DefaultEnsurePeriod c)))
         \<and> (EnsurePolicy (Spec b) = None
              \<or> (\<exists>policy. EnsurePolicy (Spec b) = Some policy \<and> Policy policy \<noteq> PolicyAlways) \<longrightarrow>
             fst (ensureBackend c st b) = SuccResult))"
proof (intro conjI allI impI)
  fix key p
  assume per: "fst (syncBackendRecord c st key) = PeriodicResult p"
  from syncBackendRecord_Periodic[OF per]
  obtain namespace name b where b: "SplitMetaNamespaceKey key = Inr (namespace, name)"
    "brLister c namespace name = Inr b" "DeletionTimestamp b = None"
    "BackendAddr (Status b) \<noteq> []" "syncBackendRecord c st key = ensureBackend c st b"
    by blast
  from per b(5) have "fst (ensureBackend c st b) = PeriodicResult p" by simp
  from ensureBackend_Periodic[OF this]
  obtain driver rsp policy where d: "getDriver c b = Inr driver"
    "CallEnsureBackend c driver (operationRequest c ''ensureBackend'' b) = Inr rsp"
    "orsp_Status rsp = StatusSucc" "EnsurePolicy (Spec b) = Some policy"
    "Policy policy = PolicyAlways"
    "p = GetDuration (MinPeriod policy) (DefaultEnsurePeriod c)"
    by blast
  have "p = (case MinPeriod policy of
               None \<Rightarrow> DefaultEnsurePeriod c
             | Some minPeriod \<Rightarrow> max minPeriod (DefaultEnsurePeriod c))"
    using d(6) by (cases "MinPeriod policy") simp_all
  with b d show "\<exists>namespace name b driver rsp policy.
         SplitMetaNamespaceKey key = Inr (namespace, name)
         \<and> brLister c namespace name = Inr b
         \<and> DeletionTimestamp b = None \<and> BackendAddr (Status b) \<noteq> []
         \<and> syncBackendRecord c st key = ensureBackend c st b
         \<and> getDriver c b = Inr driver
         \<and> CallEnsureBackend c driver (operationRequest c ''ensureBackend'' b) = Inr rsp
         \<and> orsp_Status rsp = StatusSucc
         \<and> EnsurePolicy (Spec b) = Some policy \<and> Policy policy = PolicyAlways
         \<and> p = (case MinPeriod policy of
                  None \<Rightarrow> DefaultEnsurePeriod c
                | Some minPeriod \<Rightarrow> max minPeriod (DefaultEnsurePeriod c))"
    by blast
next
  fix b driver rsp policy minPeriod
  assume a: "inProgressDeleting st (LBInfo (Spec b) @ ''|'' @ BackendAddr (Status b)) = None
         \<and> getDriver c b = Inr driver
         \<and> CallEnsureBackend c driver (operationRequest c ''ensureBackend'' b) = Inr rsp
         \<and> orsp_Status rsp = StatusSucc
         \<and> (\<forall>r\<in>set (writes (new_actions st (snd (ensureBackend c st b)))).
               client_UpdateStatus c r = None)"
    and pol: "EnsurePolicy (Spec b) = Some policy \<and> Policy policy = PolicyAlways
             \<and> MinPeriod policy = Some minPeriod"
  from a have "fst (ensureBackend c st b) =
           (case EnsurePolicy (Spec b) of
              None \<Rightarrow> SuccResult
            | Some policy \<Rightarrow>
                if Policy policy = PolicyAlways
                then PeriodicResult (GetDuration (MinPeriod policy) (DefaultEnsurePeriod c))
                else SuccResult)"
    using ensureBackend_Succ_verdict[where st=st and b=b and c=c and driver=driver and rsp=rsp]
    by (simp add: deletingKey_def)
  with pol show "fst (ensureBackend c st b) = PeriodicResult (max minPeriod (DefaultEnsurePeriod c))"
    by simp
next
  fix b driver rsp
  assume a: "inProgressDeleting st (LBInfo (Spec b) @ ''|'' @ BackendAddr (Status b)) = None
         \<and> getDriver c b = Inr driver
         \<and> CallEnsureBackend c driver (operationRequest c ''ensureBackend'' b) = Inr rsp
         \<and> orsp_Status rsp = StatusSucc
         \<and> (\<forall>r\<in>set (writes (new_actions st (snd (ensureBackend c st b)))).
               client_UpdateStatus c r = None)"
    and pol: "EnsurePolicy (Spec b) = None
              \<or> (\<exists>policy. EnsurePolicy (Spec b) = Some policy \<and> Policy policy \<noteq> PolicyAlways)"
  from a have "fst (ensureBackend c st b) =
           (case EnsurePolicy (Spec b) of
              None \<Rightarrow> SuccResult
            | Some policy \<Rightarrow>
                if Policy policy = PolicyAlways
                then PeriodicResult (GetDuration (MinPeriod policy) (DefaultEnsurePeriod c))
                else SuccResult)"
    using ensureBackend_Succ_verdict[where st=st and b=b and c=c and driver=driver and rsp=rsp]
    by (simp add: deletingKey_def)
  with pol show "fst (ensureBackend c st b) = SuccResult"
    by auto
qed

text \<open>
  Scenario 3 of the spec with minimum periods above and below the default of the fake
  environment (60), a record without policy, and a record with the policy \<open>IfNotReady\<close>.
\<close>

theorem Periodic_only_from_ensure_Always_witness:
  "fst (syncBackendRecord
          (fakeEnv [fakeRecord\<lparr>Spec := (Spec fakeRecord)
                      \<lparr>EnsurePolicy := Some \<lparr>Policy = PolicyAlways, MinPeriod = Some 90\<rparr>\<rparr>\<rparr>]
             noAnswer (Inr (opResponse StatusSucc [])) noAnswer None)
          emptyState ''default/rec-a'') = PeriodicResult 90
   \<and> fst (ensureBackend (fakeEnv [] noAnswer (Inr (opResponse StatusSucc [])) noAnswer None)
          emptyState
          (fakeRecord\<lparr>Spec := (Spec fakeRecord)
             \<lparr>EnsurePolicy := Some \<lparr>Policy = PolicyAlways, MinPeriod = Some 30\<rparr>\<rparr>\<rparr>))
       = PeriodicResult 60
   \<and> fst (ensureBackend (fakeEnv [] noAnswer (Inr (opResponse StatusSucc [])) noAnswer None)
          emptyState fakeRecord) = SuccResult
   \<and> fst (ensureBackend (fakeEnv [] noAnswer (Inr (opResponse StatusSucc [])) noAnswer None)
          emptyState
          (fakeRecord\<lparr>Spec := (Spec fakeRecord)
             \<lparr>EnsurePolicy := Some \<lparr>Policy = PolicyIfNotReady, MinPeriod = Some 30\<rparr>\<rparr>\<rparr>))
       = SuccResult"
  using
    Periodic_only_from_ensure_Always
      [of "fakeEnv [fakeRecord\<lparr>Spec := (Spec fakeRecord)
                      \<lparr>EnsurePolicy := Some \<lparr>Policy = PolicyAlways, MinPeriod = Some 90\<rparr>\<rparr>\<rparr>]
             noAnswer (Inr (opResponse StatusSucc [])) noAnswer None" emptyState,
       THEN conjunct1, rule_format, of "''default/rec-a''" 90]
    Periodic_only_from_ensure_Always
      [of "fakeEnv [] noAnswer (Inr (opResponse StatusSucc [])) noAnswer None" emptyState,
       THEN conjunct2, rule_format,
       of "fakeRecord\<lparr>Spec := (Spec fakeRecord)
             \<lparr>EnsurePolicy := Some \<lparr>Policy = PolicyAlways, MinPeriod = Some 30\<rparr>\<rparr>\<rparr>"
          fakeDriver "opResponse StatusSucc []"]
    Periodic_only_from_ensure_Always
      [of "fakeEnv [] noAnswer (Inr (opResponse StatusSucc [])) noAnswer None" emptyState,
       THEN conjunct2, rule_format, of fakeRecord fakeDriver "opResponse StatusSucc []"]
  by (simp add: fake_defs reconcile_defs new_actions_def Let_def)

section \<open>Injected information on a successful ensure\<close>

text \<open>
  Claim C9. When the driver answers the ensure call with status \<open>Succ\<close>, the reconcile
  hands exactly one record to \<open>UpdateStatus\<close>. Its \<open>Status.InjectedInfo\<close> is the
  response's \<open>InjectedInfo\<close> when that is not empty and the record's previous value when it
  is empty or absent; in both cases its conditions are the previous ones with the condition
  \<open>BackendRegistered = True\<close> (with the response's message) upserted, and address and spec
  are unchanged.
\<close>

theorem ensure_Succ_InjectedInfo:
  assumes "inProgressDeleting st (LBInfo (Spec b) @ ''|'' @ BackendAddr (Status b)) = None"
    and "getDriver c b = Inr driver"
    and "CallEnsureBackend c driver (operationRequest c ''ensureBackend'' b) = Inr rsp"
    and "orsp_Status rsp = StatusSucc"
  shows "\<exists>r. writes (new_actions st (snd (ensureBackend c st b))) = [r]
           \<and> UpdateStatus r \<in> set (new_actions st (snd (ensureBackend c st b)))
           \<and> InjectedInfo (Status r) =
               (if orsp_InjectedInfo rsp \<noteq> [] then orsp_InjectedInfo rsp
                else InjectedInfo (Status b))
           \<and> Conditions (Status r) =
               AddBackendCondition (Conditions (Status b))
                 \<lparr>cond_Type = BackendRegistered, cond_Status = ConditionTrue,
                  LastTransitionTime = Now c, Reason = [], Message = orsp_Msg rsp\<rparr>
           \<and> (\<exists>cnd\<in>set (Conditions (Status r)).
                 cond_Type cnd = BackendRegistered \<and> cond_Status cnd = ConditionTrue
                 \<and> Message cnd = orsp_Msg rsp)
           \<and> BackendAddr (Status r) = BackendAddr (Status b)
           \<and> Spec r = Spec b"
proof -
  let ?cond = "\<lparr>cond_Type = BackendRegistered, cond_Status = ConditionTrue,
                 LastTransitionTime = Now c, Reason = [], Message = orsp_Msg rsp\<rparr>"
  let ?r = "addCondition
              (if orsp_InjectedInfo rsp \<noteq> []
               then b\<lparr>Status := (Status b)\<lparr>InjectedInfo := orsp_InjectedInfo rsp\<rparr>\<rparr>
               else b) ?cond"
  let ?req = "operationRequest c ''ensureBackend'' b"
  have new: "\<exists>zs. new_actions st (snd (ensureBackend c st b))
               = [DriverEnsureBackend driver ?req, UpdateStatus ?r] @ zs \<and> writes zs = []"
    using assms
    by (auto simp: ensureBackend_def sameAddrDeleting_def deletingKey_def ensureSwitch_def
                   new_actions_def Let_def
             split: option.splits)
  then obtain zs where zs: "new_actions st (snd (ensureBackend c st b))
               = [DriverEnsureBackend driver ?req, UpdateStatus ?r] @ zs" "writes zs = []"
    by blast
  have has: "\<exists>cnd\<in>set (Conditions (Status ?r)).
                 cond_Type cnd = BackendRegistered \<and> cond_Status cnd = ConditionTrue
                 \<and> Message cnd = orsp_Msg rsp"
    using AddBackendCondition_has[of _ ?cond] by (simp add: addCondition_def)
  have "writes (new_actions st (snd (ensureBackend c st b))) = [?r]"
    using zs by simp
  moreover have "UpdateStatus ?r \<in> set (new_actions st (snd (ensureBackend c st b)))"
    using zs by simp
  moreover have "InjectedInfo (Status ?r) =
               (if orsp_InjectedInfo rsp \<noteq> [] then orsp_InjectedInfo rsp
                else InjectedInfo (Status b))"
    by (simp add: addCondition_def)
  moreover have "Conditions (Status ?r) = AddBackendCondition (Conditions (Status b)) ?cond"
    by (simp add: addCondition_def)
  moreover have "BackendAddr (Status ?r) = BackendAddr (Status b)" "Spec ?r = Spec b"
    by (simp_all add: addCondition_def)
  ultimately show ?thesis using has by blast
qed

text \<open>
  A record that holds \<open>listener = abc\<close>: a response without injected information keeps it,
  a response with \<open>listener = xyz\<close> replaces it; the condition is written both times.
\<close>

theorem ensure_Succ_InjectedInfo_witness:
  "map (\<lambda>r. InjectedInfo (Status r))
     (writes (new_actions emptyState (snd (ensureBackend
        (fakeEnv [] noAnswer (Inr (opResponse StatusSucc [])) noAnswer None) emptyState
        (fakeRecord\<lparr>Status := (Status fakeRecord)\<lparr>InjectedInfo := [(''listener'', ''abc'')]\<rparr>\<rparr>)))))
     = [[(''listener'', ''abc'')]]
   \<and> map (\<lambda>r. map cond_Status (Conditions (Status r)))
     (writes (new_actions emptyState (snd (ensureBackend
        (fakeEnv [] noAnswer (Inr (opResponse StatusSucc [])) noAnswer None) emptyState
        (fakeRecord\<lparr>Status := (Status fakeRecord)\<lparr>InjectedInfo := [(''listener'', ''abc'')]\<rparr>\<rparr>)))))
     = [[ConditionTrue]]
   \<and> map (\<lambda>r. InjectedInfo (Status r))
     (writes (new_actions emptyState (snd (ensureBackend
        (fakeEnv [] noAnswer (Inr (opResponse StatusSucc [(''listener'', ''xyz'')])) noAnswer None)
        emptyState
        (fakeRecord\<lparr>Status := (Status fakeRecord)\<lparr>InjectedInfo := [(''listener'', ''abc'')]\<rparr>\<rparr>)))))
     = [[(''listener'', ''xyz'')]]"
  using
    ensure_Succ_InjectedInfo
      [of emptyState
          "fakeRecord\<lparr>Status := (Status fakeRecord)\<lparr>InjectedInfo := [(''listener'', ''abc'')]\<rparr>\<rparr>"
          "fakeEnv [] noAnswer (Inr (opResponse StatusSucc [])) noAnswer None"
          fakeDriver "opResponse StatusSucc []"]
    ensure_Succ_InjectedInfo
      [of emptyState
          "fakeRecord\<lparr>Status := (Status fakeRecord)\<lparr>InjectedInfo := [(''listener'', ''abc'')]\<rparr>\<rparr>"
          "fakeEnv [] noAnswer (Inr (opResponse StatusSucc [(''listener'', ''xyz'')])) noAnswer None"
          fakeDriver "opResponse StatusSucc [(''listener'', ''xyz'')]"]
  by (simp add: fake_defs reconcile_defs new_actions_def Let_def)

section \<open>Precedence of the backend sources\<close>

text \<open>
  Claim C10. With the driver resolved, the generate path picks the generator by a fixed
  precedence: the pod generator when \<open>Spec.PodBackendInfo\<close> is set, else the service
  generator when \<open>Spec.ServiceBackendInfo\<close> is set, else the static generator when
  \<open>Spec.StaticAddr\<close> is set, else the verdict is \<open>Error\<close> (unknown backend type) and
  nothing else happens. One reconcile enters at most one generator, whatever source kinds
  are set.
\<close>

theorem generateBackendAddr_precedence:
  assumes "getDriver c b = Inr driver"
  shows "(PodBackendInfo (Spec b) \<noteq> None \<longrightarrow>
            generateDispatch c st b driver = generatePodAddr c st b driver
            \<and> generatorEntries (new_actions st (snd (generateBackendAddr c st b)))
                = [EnterGeneratePodAddr])
       \<and> (PodBackendInfo (Spec b) = None \<and> ServiceBackendInfo (Spec b) \<noteq> None \<longrightarrow>
            generateDispatch c st b driver = generateServiceAddr c st b driver
            \<and> generatorEntries (new_actions st (snd (generateBackendAddr c st b)))
                = [EnterGenerateServiceAddr])
       \<and> (PodBackendInfo (Spec b) = None \<and> ServiceBackendInfo (Spec b) = None
            \<and> StaticAddr (Spec b) \<noteq> None \<longrightarrow>
            generateDispatch c st b driver = generateStaticAddr st b
            \<and> generatorEntries (new_actions st (snd (generateBackendAddr c st b)))
                = [EnterGenerateStaticAddr])
       \<and> (PodBackendInfo (Spec b) = None \<and> ServiceBackendInfo (Spec b) = None
            \<and> StaticAddr (Spec b) = None \<longrightarrow>
            generateBackendAddr c st b = (ErrorResult (Errorf ''unknown backend type'' []), st))
       \<and> length (generatorEntries (new_actions st (snd (generateBackendAddr c st b)))) \<le> 1"
proof -
  note entries = generatorEntries_generateBackendAddr[OF assms, of st]
  have pod: "generateDispatch c st b driver = generatePodAddr c st b driver"
    if "PodBackendInfo (Spec b) \<noteq> None"
    using that by (simp add: generateDispatch_def)
  have svc: "generateDispatch c st b driver = generateServiceAddr c st b driver"
    if "PodBackendInfo (Spec b) = None" "ServiceBackendInfo (Spec b) \<noteq> None"
    using that by (simp add: generateDispatch_def)
  have static: "generateDispatch c st b driver = generateStaticAddr st b"
    if "PodBackendInfo (Spec b) = None" "ServiceBackendInfo (Spec b) = None"
      "StaticAddr (Spec b) \<noteq> None"
    using that by (simp add: generateDispatch_def)
  have none: "generateBackendAddr c st b = (ErrorResult (Errorf ''unknown backend type'' []), st)"
    if "PodBackendInfo (Spec b) = None" "ServiceBackendInfo (Spec b) = None"
      "StaticAddr (Spec b) = None"
    using that assms by (simp add: generateBackendAddr_def generateDispatch_def)
  show ?thesis
    using entries pod svc static none generatorEntries_at_most_one[of st c b]
    by (intro conjI impI) simp_all
qed

text \<open>
  Records with all three sources, with service and static address, with the static address
  alone, and with no source.
\<close>

theorem generateBackendAddr_precedence_witness:
  "getDriver (fakeEnv [] (Inr (genResponse StatusSucc ''10.1.2.3:80'')) noAnswer noAnswer None)
      fakeRecord = Inr fakeDriver
   \<and> generatorEntries (new_actions emptyState (snd (generateBackendAddr
        (fakeEnv [] (Inr (genResponse StatusSucc ''10.1.2.3:80'')) noAnswer noAnswer None)
        emptyState
        (fakeRecord\<lparr>Spec := (Spec fakeRecord)
           \<lparr>PodBackendInfo := Some \<lparr>pod_Name = ''pod-1'',
                                    pod_Port = \<lparr>PortNumber = 80, Protocol = ''TCP''\<rparr>\<rparr>,
            ServiceBackendInfo := Some \<lparr>svc_Name = ''svc-1'',
                                        svc_Port = \<lparr>PortNumber = 80, Protocol = ''TCP''\<rparr>,
                                        svc_NodeName = ''node-1''\<rparr>\<rparr>\<rparr>))))
      = [EnterGeneratePodAddr]
   \<and> generatorEntries (new_actions emptyState (snd (generateBackendAddr
        (fakeEnv [] (Inr (genResponse StatusSucc ''10.1.2.3:80'')) noAnswer noAnswer None)
        emptyState
        (fakeRecord\<lparr>Spec := (Spec fakeRecord)
           \<lparr>ServiceBackendInfo := Some \<lparr>svc_Name = ''svc-1'',
                                        svc_Port = \<lparr>PortNumber = 80, Protocol = ''TCP''\<rparr>,
                                        svc_NodeName = ''node-1''\<rparr>\<rparr>\<rparr>))))
      = [EnterGenerateServiceAddr]
   \<and> generatorEntries (new_actions emptyState (snd (generateBackendAddr
        (fakeEnv [] (Inr (genResponse StatusSucc ''10.1.2.3:80'')) noAnswer noAnswer None)
        emptyState fakeRecord)))
      = [EnterGenerateStaticAddr]
   \<and> generateBackendAddr
        (fakeEnv [] (Inr (genResponse StatusSucc ''10.1.2.3:80'')) noAnswer noAnswer None)
        emptyState (fakeRecord\<lparr>Spec := (Spec fakeRecord)\<lparr>StaticAddr := None\<rparr>\<rparr>)
      = (ErrorResult (Errorf ''unknown backend type'' []), emptyState)"
proof -
  let ?c = "fakeEnv [] (Inr (genResponse StatusSucc ''10.1.2.3:80'')) noAnswer noAnswer None"
  have d0: "getDriver ?c fakeRecord = Inr fakeDriver"
    by (simp add: fake_defs getDriver_def GetDriverNamespace_def)
  have d1: "getDriver ?c (fakeRecord\<lparr>Spec := (Spec fakeRecord)
           \<lparr>PodBackendInfo := Some \<lparr>pod_Name = ''pod-1'',
                                    pod_Port = \<lparr>PortNumber = 80, Protocol = ''TCP''\<rparr>\<rparr>,
            ServiceBackendInfo := Some \<lparr>svc_Name = ''svc-1'',
                                        svc_Port = \<lparr>PortNumber = 80, Protocol = ''TCP''\<rparr>,
                                        svc_NodeName = ''node-1''\<rparr>\<rparr>\<rparr>) = Inr fakeDriver"
    by (simp add: fake_defs getDriver_def GetDriverNamespace_def)
  have d2: "getDriver ?c (fakeRecord\<lparr>Spec := (Spec fakeRecord)
           \<lparr>ServiceBackendInfo := Some \<lparr>svc_Name = ''svc-1'',
                                        svc_Port = \<lparr>PortNumber = 80, Protocol = ''TCP''\<rparr>,
                                        svc_NodeName = ''node-1''\<rparr>\<rparr>\<rparr>) = Inr fakeDriver"
    by (simp add: fake_defs getDriver_def GetDriverNamespace_def)
  have d3: "getDriver ?c (fakeRecord\<lparr>Spec := (Spec fakeRecord)\<lparr>StaticAddr := None\<rparr>\<rparr>)
              = Inr fakeDriver"
    by (simp add: fake_defs getDriver_def GetDriverNamespace_def)
  show ?thesis
    using d0 generateBackendAddr_precedence [OF d1, of emptyState]
      generateBackendAddr_precedence [OF d2, of emptyState]
      generateBackendAddr_precedence [OF d0, of emptyState]
      generateBackendAddr_precedence [OF d3, of emptyState]
    by (simp add: fakeRecord_def)
qed

section \<open>The URL of a webhook request\<close>

text \<open>
  Claim C6 says that the request goes to \<open>driver.Spec.Url\<close> followed by \<open>/\<close> and the hook
  name, keeping a base path of the driver's URL. \<open>callWebhook\<close> assigns
  \<open>path.Join(webHookName)\<close> to \<open>u.Path\<close>, which replaces the base path: for the driver
  URL \<open>http://lb-driver.default/api/v1\<close> and the hook \<open>ensureBackend\<close> the request goes
  to \<open>http://lb-driver.default/ensureBackend\<close>. Only for a URL without path do the two
  agree.
\<close>

theorem callWebhook_replaces_base_path:
  "requestURL (echoTransport :: (unit, string) transport)
     (fakeDriver\<lparr>drv_Url := ''http://lb-driver.default/api/v1''\<rparr>) EnsureBackend
     = Inr ''http://lb-driver.default/ensureBackend''
   \<and> callWebhook echoTransport
       (fakeDriver\<lparr>drv_Url := ''http://lb-driver.default/api/v1''\<rparr>) EnsureBackend ()
     = Inr ''http://lb-driver.default/ensureBackend''
   \<and> callWebhook echoTransport
       (fakeDriver\<lparr>drv_Url := ''http://lb-driver.default/api/v1''\<rparr>) EnsureBackend ()
     \<noteq> Inr ''http://lb-driver.default/api/v1/ensureBackend''
   \<and> callWebhook echoTransport fakeDriver EnsureBackend ()
     = Inr ''http://lb-driver.default/ensureBackend''"
  by (simp add: callWebhook_def requestURL_def echoTransport_def fakeParse_def fakeDriver_def
        EnsureBackend_def path_Join_def path_Clean_def URL_String_def StatusOK_def)

section \<open>Errors of the webhook client\<close>




end
